theory Spec2Isabelle
  imports Complex_Main "HOL-Library.Word"
begin

section \<open>Values of the Python program\<close>

text \<open>
  The exceptions that \<^verbatim>\<open>xrasterlib/Raster.py\<close> raises itself, and those raised under it by
  the interpreter and by the array and raster libraries it calls. The specification's error
  names are language neutral; they stand for these exceptions:
  \<^item> \<open>NotFoundError\<close>: \<open>RuntimeError\<close> with the text \<^verbatim>\<open><filename> does not exist\<close>;
  \<^item> \<open>ConfigurationError\<close>: \<open>RuntimeError\<close> with the text \<^verbatim>\<open>Must specify band names. ...\<close>;
  \<^item> \<open>UnsupportedOperatorError\<close>: the \<open>KeyError\<close> of the lookup \<^verbatim>\<open>ops[op]\<close>;
  \<^item> \<open>InvalidBandError\<close>: the \<open>AssertionError\<close> of \<^verbatim>\<open>dropindices\<close>.
\<close>

datatype error =
    RuntimeError string
  | KeyError string
  | AssertionError string
  | AttributeError string
  | TypeError
  | IndexError
  | ValueError
  | OverflowError
  | RasterioIOError string

text \<open>
  An attribute of a Python object is either not there yet (reading it raises
  \<open>AttributeError\<close>) or holds a value. \<^verbatim>\<open>Raster()\<close> sets none of \<^verbatim>\<open>data\<close>, \<^verbatim>\<open>bands\<close>,
  \<^verbatim>\<open>nodataval\<close>.
\<close>

datatype 'a attr = Unset | Attr 'a

text \<open>
  A Python \<^verbatim>\<open>float\<close>: not a number, an infinity, or a finite value, which is a rational
  number. The no-data markers that \<^verbatim>\<open>open_rasterio\<close> puts into \<^verbatim>\<open>attrs['nodatavals']\<close> are such
  floats, \<^verbatim>\<open>nan\<close> for a band without a marker.
\<close>

datatype pyfloat = NaN | PosInf | NegInf | Finite rat

text \<open>
  A two-dimensional numpy array: its shape (rows, columns) and its cells in row-major
  order.
\<close>

record 'a ndarray =
  shape :: "nat \<times> nat"
  flat :: "'a list"

text \<open>
  The xarray \<^verbatim>\<open>DataArray\<close> of a raster: along the dimension \<^verbatim>\<open>band\<close> a list of planes, each
  with its coordinate label, and the three attributes the class reads. Scales, offsets and
  the atmospheric factor are only copied around, never computed with.
\<close>

record 'a dataarray =
  planes :: "(int \<times> 'a ndarray) list"
  nodatavals :: "pyfloat list"
  scales :: "real list"
  offsets :: "real list"

text \<open>The object: \<^verbatim>\<open>self.data\<close>, \<^verbatim>\<open>self.bands\<close> (which may hold \<^verbatim>\<open>None\<close>), \<^verbatim>\<open>self.nodataval\<close>.\<close>

record 'a raster =
  data :: "'a dataarray attr"
  bands :: "string list option attr"
  nodataval :: "pyfloat list attr"

definition empty_raster :: "'a raster" where
  "empty_raster = \<lparr>data = Unset, bands = Unset, nodataval = Unset\<rparr>"

text \<open>
  A method either completes and leaves the object in a new state (\<open>Inr\<close>), or raises and
  leaves the object in the state reached at the raise (\<open>Inl\<close>).
\<close>

type_synonym 'a outcome = "(error \<times> 'a raster) + 'a raster"

section \<open>Files\<close>

text \<open>
  The rasterio profile of a file: the two keys \<^verbatim>\<open>toraster\<close> overwrites, and all the others
  (driver, nodata, width, height, crs, transform, compression) as an association list.
\<close>

record profile =
  count :: nat
  dtype :: string
  other_meta :: "(string \<times> string) list"

text \<open>
  What the class reads from a raster file: the band planes, the per-band metadata that
  \<^verbatim>\<open>open_rasterio\<close> puts into \<^verbatim>\<open>attrs\<close>, the profile, and the validity mask of band 1
  (\<^verbatim>\<open>read_masks(1)\<close>, an array of unsigned bytes in which 0 marks an invalid pixel).
\<close>

record 'a rasterfile =
  rf_bands :: "'a ndarray list"
  rf_nodatavals :: "pyfloat list"
  rf_scales :: "real list"
  rf_offsets :: "real list"
  rf_profile :: profile
  rf_mask1 :: "8 word ndarray"

datatype 'a entry = OtherFile | RasterFile "'a rasterfile"

type_synonym 'a filesystem = "string \<rightharpoonup> 'a entry"

definition isfile :: "'a filesystem \<Rightarrow> string \<Rightarrow> bool" where
  "isfile fs filename = (fs filename \<noteq> None)"

text \<open>
  \<^verbatim>\<open>xr.open_rasterio(filename, chunks=...)\<close>: the bands of the file, labelled \<open>1, 2, ..., n\<close>
  along \<^verbatim>\<open>band\<close>. A path that is no readable raster makes the library raise.
\<close>

definition open_rasterio :: "'a filesystem \<Rightarrow> string \<Rightarrow> error + 'a dataarray" where
  "open_rasterio fs filename =
     (case fs filename of
        Some (RasterFile rf) \<Rightarrow>
          Inr \<lparr>planes = zip (map int [1..<Suc (length (rf_bands rf))]) (rf_bands rf),
               nodatavals = rf_nodatavals rf,
               scales = rf_scales rf,
               offsets = rf_offsets rf\<rparr>
      | _ \<Rightarrow> Inl (RasterioIOError filename))"

section \<open>Loading\<close>

text \<open>
  \<^verbatim>\<open>Raster.__init__(self, filename=None, bands=None, logger=None)\<close>. When it raises, no object
  comes into being, so the error stands alone. The logger is stored and never used.
\<close>

definition init :: "'a filesystem \<Rightarrow> string option \<Rightarrow> string list option \<Rightarrow> error + 'a raster" where
  "init fs filename bs =
     (case filename of
        None \<Rightarrow> Inr empty_raster
      | Some f \<Rightarrow>
          if \<not> isfile fs f then Inl (RuntimeError (f @ '' does not exist''))
          else (case open_rasterio fs f of
                  Inl e \<Rightarrow> Inl e
                | Inr d \<Rightarrow>
                    (case bs of
                       None \<Rightarrow> Inl (RuntimeError
                         ''Must specify band names. Refer to documentation for details.'')
                     | Some names \<Rightarrow>
                         Inr \<lparr>data = Attr d, bands = Attr (Some names),
                              nodataval = Attr (nodatavals d)\<rparr>)))"

text \<open>\<^verbatim>\<open>Raster.readraster(self, filename, bands)\<close>.\<close>

definition readraster :: "'a filesystem \<Rightarrow> string \<Rightarrow> string list option \<Rightarrow> 'a raster \<Rightarrow> 'a outcome" where
  "readraster fs filename bs r =
     (case open_rasterio fs filename of
        Inl e \<Rightarrow> Inl (e, r)
      | Inr d \<Rightarrow> Inr (r\<lparr>data := Attr d, bands := Attr bs, nodataval := Attr (nodatavals d)\<rparr>))"

section \<open>Thresholding\<close>

text \<open>The dictionary \<^verbatim>\<open>ops = {'<': operator.lt, '>': operator.gt}\<close>.\<close>

definition ops :: "string \<rightharpoonup> ('a::ord \<Rightarrow> 'a \<Rightarrow> bool)" where
  "ops = [''<'' \<mapsto> (\<lambda>x y. x < y), ''>'' \<mapsto> (\<lambda>x y. x > y)]"

text \<open>
  \<^verbatim>\<open>DataArray.where(cond, other=replace)\<close>: a cell is kept where the condition holds and is
  \<^verbatim>\<open>other\<close> elsewhere; labels, shapes and attributes stay.
\<close>

definition where_cells :: "('a \<Rightarrow> bool) \<Rightarrow> 'a \<Rightarrow> 'a ndarray \<Rightarrow> 'a ndarray" where
  "where_cells cond other a = a\<lparr>flat := map (\<lambda>p. if cond p then p else other) (flat a)\<rparr>"

definition where_da :: "('a \<Rightarrow> bool) \<Rightarrow> 'a \<Rightarrow> 'a dataarray \<Rightarrow> 'a dataarray" where
  "where_da cond other d =
     d\<lparr>planes := map (\<lambda>(c, a). (c, where_cells cond other a)) (planes d)\<rparr>"

text \<open>
  \<^verbatim>\<open>Raster.preprocess(self, op='>', boundary=0, replace=0)\<close>. In
  \<^verbatim>\<open>self.data.where(ops[op](self.data, boundary), other=replace)\<close> the method
  \<^verbatim>\<open>self.data.where\<close> is looked up first, then \<^verbatim>\<open>ops[op]\<close>.

  The boundary and the replacement are Python scalars. Before the library compares a scalar
  with the cells or stores it among them, it converts the scalar to the data type in which
  it works with the array: for a raster of 32-bit floats, to the nearest 32-bit float. That
  conversion, \<open>astype\<close>, depends on the data type of the raster, which the class takes
  from the file; it is a parameter of the model.
\<close>

definition preprocess ::
  "('s \<Rightarrow> 'a::ord) \<Rightarrow> string \<Rightarrow> 's \<Rightarrow> 's \<Rightarrow> 'a raster \<Rightarrow> 'a outcome" where
  "preprocess astype opr boundary replace r =
     (case data r of
        Unset \<Rightarrow> Inl (AttributeError ''data'', r)
      | Attr d \<Rightarrow>
          (case ops opr of
             None \<Rightarrow> Inl (KeyError opr, r)
           | Some cmp \<Rightarrow>
               Inr (r\<lparr>data := Attr (where_da (\<lambda>p. cmp p (astype boundary)) (astype replace) d)\<rparr>)))"

section \<open>Adding and dropping bands\<close>

definition get_data :: "'a raster \<Rightarrow> error + 'a dataarray" where
  "get_data r = (case data r of Unset \<Rightarrow> Inl (AttributeError ''data'') | Attr d \<Rightarrow> Inr d)"

text \<open>
  Reading \<^verbatim>\<open>self.bands\<close> where a list is needed (\<^verbatim>\<open>len\<close>, \<^verbatim>\<open>in\<close>, iteration): \<^verbatim>\<open>None\<close> there
  raises \<open>TypeError\<close>.
\<close>

definition get_bands :: "'a raster \<Rightarrow> error + string list" where
  "get_bands r =
     (case bands r of
        Unset \<Rightarrow> Inl (AttributeError ''bands'')
      | Attr None \<Rightarrow> Inl TypeError
      | Attr (Some bs) \<Rightarrow> Inr bs)"

text \<open>
  An index function of \<^verbatim>\<open>xrasterlib.indices\<close>, called as
  \<^verbatim>\<open>indices_function(self.data, bands=self.bands, factor=factor)\<close>: it returns one new band
  and its name, or raises. The functions themselves are outside this file, so they are
  parameters of the model.
\<close>

type_synonym 'a index_function =
  "'a dataarray \<Rightarrow> string list \<Rightarrow> real \<Rightarrow> error + ('a ndarray \<times> string)"

text \<open>
  \<^verbatim>\<open>band.coords['band'] = [nbands]\<close> followed by \<^verbatim>\<open>xr.concat([self.data, band], dim='band')\<close>:
  the new plane, labelled \<open>nbands\<close>, goes last; the attributes are those of the first
  array. The new band is taken to lie on the grid of the others.
\<close>

definition concat_band :: "'a dataarray \<Rightarrow> int \<Rightarrow> 'a ndarray \<Rightarrow> 'a dataarray" where
  "concat_band d label band = d\<lparr>planes := planes d @ [(label, band)]\<rparr>"

text \<open>The loop of \<^verbatim>\<open>addindices\<close>, with the counter \<^verbatim>\<open>nbands\<close> as it is before the iteration.\<close>

fun addindices_loop ::
  "'a index_function list \<Rightarrow> real \<Rightarrow> nat \<Rightarrow> 'a raster \<Rightarrow> (error \<times> 'a raster) + (nat \<times> 'a raster)" where
  "addindices_loop [] factor nbands r = Inr (nbands, r)"
| "addindices_loop (f # fs) factor nbands r =
     (case get_data r of
        Inl e \<Rightarrow> Inl (e, r)
      | Inr d \<Rightarrow>
          (case get_bands r of
             Inl e \<Rightarrow> Inl (e, r)
           | Inr bs \<Rightarrow>
               (case f d bs factor of
                  Inl e \<Rightarrow> Inl (e, r)
                | Inr (band, bandid) \<Rightarrow>
                    addindices_loop fs factor (Suc nbands)
                      (r\<lparr>bands := Attr (Some (bs @ [bandid])),
                         data := Attr (concat_band d (int (Suc nbands)) band)\<rparr>))))"

text \<open>
  \<^verbatim>\<open>Raster.addindices(self, indices, factor=1.0)\<close>. After the loop the first scale and the
  first offset are replicated \<open>nbands\<close> times; \<^verbatim>\<open>[0]\<close> on an empty sequence raises.
\<close>

definition addindices :: "'a index_function list \<Rightarrow> real \<Rightarrow> 'a raster \<Rightarrow> 'a outcome" where
  "addindices indices factor r =
     (case get_bands r of
        Inl e \<Rightarrow> Inl (e, r)
      | Inr bs \<Rightarrow>
          (case addindices_loop indices factor (length bs) r of
             Inl x \<Rightarrow> Inl x
           | Inr (nbands, r1) \<Rightarrow>
               (case get_data r1 of
                  Inl e \<Rightarrow> Inl (e, r1)
                | Inr d \<Rightarrow>
                    (case scales d of
                       [] \<Rightarrow> Inl (IndexError, r1)
                     | s # _ \<Rightarrow>
                         (let d1 = d\<lparr>scales := replicate nbands s\<rparr> in
                          case offsets d1 of
                            [] \<Rightarrow> Inl (IndexError, r1\<lparr>data := Attr d1\<rparr>)
                          | off # _ \<Rightarrow>
                              Inr (r1\<lparr>data := Attr (d1\<lparr>offsets := replicate nbands off\<rparr>)\<rparr>))))))"

text \<open>
  \<^verbatim>\<open>all(band in self.bands for band in dropindices)\<close>: the generator reads \<^verbatim>\<open>self.bands\<close> once
  per name and stops at the first name that is absent.
\<close>

fun all_present :: "'a raster \<Rightarrow> string list \<Rightarrow> error + bool" where
  "all_present r [] = Inr True"
| "all_present r (band # rest) =
     (case get_bands r of
        Inl e \<Rightarrow> Inl e
      | Inr bs \<Rightarrow> if band \<in> set bs then all_present r rest else Inr False)"

text \<open>\<^verbatim>\<open>list.index\<close>: the first position of a value, \<open>ValueError\<close> (here \<open>None\<close>) when absent.\<close>

fun index_of :: "'b list \<Rightarrow> 'b \<Rightarrow> nat option" where
  "index_of [] x = None"
| "index_of (y # ys) x = (if y = x then Some 0 else map_option Suc (index_of ys x))"

text \<open>\<^verbatim>\<open>[self.bands.index(ind_id)+1 for ind_id in dropindices]\<close>.\<close>

fun dropind_of :: "'a raster \<Rightarrow> string list \<Rightarrow> error + int list" where
  "dropind_of r [] = Inr []"
| "dropind_of r (ind_id # rest) =
     (case get_bands r of
        Inl e \<Rightarrow> Inl e
      | Inr bs \<Rightarrow>
          (case index_of bs ind_id of
             None \<Rightarrow> Inl ValueError
           | Some i \<Rightarrow>
               (case dropind_of r rest of
                  Inl e \<Rightarrow> Inl e
                | Inr labels \<Rightarrow> Inr ((int i + 1) # labels))))"

text \<open>
  \<^verbatim>\<open>self.data.drop(dim="band", labels=dropind, drop=True)\<close>, by the library's contract for
  dropping index labels along a dimension: a label that is not among the coordinates raises
  \<open>KeyError\<close>; otherwise the planes carrying one of the labels go, and the others keep
  their order and their labels. The contract is that of an array whose labels are pairwise
  distinct; the statements below use it on such arrays only.
\<close>

definition drop_labels :: "int list \<Rightarrow> 'a dataarray \<Rightarrow> error + 'a dataarray" where
  "drop_labels labels d =
     (if list_ex (\<lambda>l. l \<notin> set (map fst (planes d))) labels
      then Inl (KeyError ''not found in axis'')
      else Inr (d\<lparr>planes := filter (\<lambda>p. fst p \<notin> set labels) (planes d)\<rparr>))"

text \<open>\<^verbatim>\<open>Raster.dropindices(self, dropindices)\<close>.\<close>

definition dropindices :: "string list \<Rightarrow> 'a raster \<Rightarrow> 'a outcome" where
  "dropindices names r =
     (case all_present r names of
        Inl e \<Rightarrow> Inl (e, r)
      | Inr ok \<Rightarrow>
          if \<not> ok then Inl (AssertionError ''Specified band not in raster.'', r)
          else
            (case dropind_of r names of
               Inl e \<Rightarrow> Inl (e, r)
             | Inr dropind \<Rightarrow>
                 (case get_data r of
                    Inl e \<Rightarrow> Inl (e, r)
                  | Inr d \<Rightarrow>
                      (case drop_labels dropind d of
                         Inl e \<Rightarrow> Inl (e, r)
                       | Inr d' \<Rightarrow>
                           (let r1 = r\<lparr>data := Attr d'\<rparr> in
                            case get_bands r1 of
                              Inl e \<Rightarrow> Inl (e, r1)
                            | Inr bs \<Rightarrow>
                                Inr (r1\<lparr>bands :=
                                  Attr (Some (filter (\<lambda>band. band \<notin> set names) bs))\<rparr>))))))"

text \<open>The invariant of the specification: one name per plane of the band dimension.\<close>

definition band_invariant :: "'a raster \<Rightarrow> bool" where
  "band_invariant r =
     (case data r of
        Unset \<Rightarrow> False
      | Attr d \<Rightarrow>
          (case bands r of
             Attr (Some bs) \<Rightarrow> length bs = length (planes d)
           | _ \<Rightarrow> False))"

section \<open>Writing a prediction\<close>

type_synonym int16 = "16 word"

text \<open>\<^verbatim>\<open>a[mask]\<close> for a boolean mask: the cells at the true positions, in row-major order.\<close>

fun boolean_select :: "bool list \<Rightarrow> 'b list \<Rightarrow> 'b list" where
  "boolean_select (b # bs) (x # xs) = (if b then x # boolean_select bs xs else boolean_select bs xs)"
| "boolean_select _ _ = []"

text \<open>
  \<^verbatim>\<open>a[mask] = values\<close> for a boolean mask and a one-dimensional array of values: the true
  positions take the values in order.
\<close>

fun boolean_store :: "bool list \<Rightarrow> 'b list \<Rightarrow> 'b list \<Rightarrow> 'b list" where
  "boolean_store (b # bs) (x # xs) vs =
     (if b then (case vs of [] \<Rightarrow> x # xs | v # vs' \<Rightarrow> v # boolean_store bs xs vs')
      else x # boolean_store bs xs vs)"
| "boolean_store _ xs _ = xs"

text \<open>
  The two steps with their checks: the mask must have the shape of the array
  (\<open>IndexError\<close>), and there must be one value per true position (\<open>ValueError\<close>).
\<close>

definition mask_assign ::
  "bool ndarray \<Rightarrow> 'b list \<Rightarrow> 'b ndarray \<Rightarrow> error + 'b ndarray" where
  "mask_assign sel vs a =
     (if shape sel \<noteq> shape a \<or> length (flat sel) \<noteq> length (flat a) then Inl IndexError
      else if length vs \<noteq> length (filter id (flat sel)) then Inl ValueError
      else Inr (a\<lparr>flat := boolean_store (flat sel) (flat a) vs\<rparr>))"

text \<open>\<^verbatim>\<open>src.read_masks(1).astype('int16')\<close>.\<close>

definition astype_int16 :: "8 word ndarray \<Rightarrow> int16 ndarray" where
  "astype_int16 m = \<lparr>shape = shape m, flat = map ucast (flat m)\<rparr>"

text \<open>\<^verbatim>\<open>int(x)\<close> for a finite float: the integer towards zero.\<close>

definition py_int :: "rat \<Rightarrow> int" where
  "py_int q = (if 0 \<le> q then \<lfloor>q\<rfloor> else \<lceil>q\<rceil>)"

text \<open>
  Storing a Python float into a cell of a 16-bit integer array, as
  \<^verbatim>\<open>nodatavals[nodatavals == 0] = self.nodataval[0]\<close> does before it looks at the mask: numpy
  takes \<^verbatim>\<open>int(x)\<close>, which raises \<open>ValueError\<close> for \<^verbatim>\<open>nan\<close> and \<open>OverflowError\<close> for an
  infinity, reads it as a C \<^verbatim>\<open>long\<close>, which raises \<open>OverflowError\<close> beyond 64 bits, and
  keeps the low 16 bits.
\<close>

definition store_int16 :: "pyfloat \<Rightarrow> error + int16" where
  "store_int16 x =
     (case x of
        NaN \<Rightarrow> Inl ValueError
      | PosInf \<Rightarrow> Inl OverflowError
      | NegInf \<Rightarrow> Inl OverflowError
      | Finite q \<Rightarrow>
          (let n = py_int q
           in if - (2 ^ 63) \<le> n \<and> n < 2 ^ 63 then Inr (word_of_int n) else Inl OverflowError))"

definition stamp_zeros :: "int16 \<Rightarrow> int16 ndarray \<Rightarrow> int16 ndarray" where
  "stamp_zeros marker a = a\<lparr>flat := map (\<lambda>c. if c = 0 then marker else c) (flat a)\<rparr>"

text \<open>
  \<^verbatim>\<open>nodatavals == self.nodataval[0]\<close>: the value of each signed cell against the float. No
  cell equals \<^verbatim>\<open>nan\<close> or an infinity.
\<close>

definition equals_marker :: "pyfloat \<Rightarrow> int16 ndarray \<Rightarrow> bool ndarray" where
  "equals_marker x a =
     \<lparr>shape = shape a,
      flat = map (\<lambda>c. case x of Finite q \<Rightarrow> of_int (sint c) = q | _ \<Rightarrow> False) (flat a)\<rparr>"

text \<open>
  \<^verbatim>\<open>rio.open(output, 'w', **out_meta)\<close> either opens the new dataset, or raises before a
  file exists (a path that cannot be written), or raises after it has created the file,
  which then holds zeros only (a profile it rejects once the file is there, such as a
  no-data value outside the range of the data type). Which of the three happens is the
  library's matter; the function that tells it is a parameter of the model.
\<close>

datatype open_outcome = Opened | Refused error | Created_then_raised error

text \<open>What \<^verbatim>\<open>toraster\<close> hands to \<^verbatim>\<open>rio.open(output, 'w', **out_meta)\<close> and \<^verbatim>\<open>dst.write(prediction, 1)\<close>.\<close>

record written =
  w_path :: string
  w_profile :: profile
  w_band1 :: "int16 ndarray"

text \<open>
  What is at the output path when the call ends: nothing new, a file of zeros, or the file
  written.
\<close>

datatype output_state = No_file | Zero_filled string | Written written

text \<open>
  The outcome of \<^verbatim>\<open>toraster\<close>: the exception, if one was raised; the array object the caller
  passed as \<^verbatim>\<open>prediction\<close>, as it is when the call ends; the state of the output path.
\<close>

record toraster_result =
  raised :: "error option"
  prediction_after :: "int16 ndarray"
  output_file :: output_state

text \<open>
  \<^verbatim>\<open>Raster.toraster(self, rast, prediction, output='rfmask.tif')\<close>. The prediction is an array
  of the output's cell type and, once it has passed the shape check of the stamping, of the
  output's shape, so that \<^verbatim>\<open>dst.write(prediction, 1)\<close> stores it as it is.
\<close>

definition toraster ::
  "'a filesystem \<Rightarrow> (string \<Rightarrow> profile \<Rightarrow> open_outcome) \<Rightarrow> 'a raster \<Rightarrow> string \<Rightarrow>
     int16 ndarray \<Rightarrow> string \<Rightarrow> toraster_result" where
  "toraster fs rio_open_w r rast prediction output =
     (case fs rast of
        Some (RasterFile rf) \<Rightarrow>
          (case nodataval r of
             Unset \<Rightarrow>
               \<lparr>raised = Some (AttributeError ''nodataval''), prediction_after = prediction,
                output_file = No_file\<rparr>
           | Attr [] \<Rightarrow>
               \<lparr>raised = Some IndexError, prediction_after = prediction, output_file = No_file\<rparr>
           | Attr (nd # _) \<Rightarrow>
               (case store_int16 nd of
                  Inl e \<Rightarrow>
                    \<lparr>raised = Some e, prediction_after = prediction, output_file = No_file\<rparr>
                | Inr marker \<Rightarrow>
                    (let meta = rf_profile rf;
                         nodatavals0 = astype_int16 (rf_mask1 rf);
                         nodatavals1 = stamp_zeros marker nodatavals0;
                         sel = equals_marker nd nodatavals1
                     in case mask_assign sel (boolean_select (flat sel) (flat nodatavals1))
                               prediction of
                          Inl e \<Rightarrow>
                            \<lparr>raised = Some e, prediction_after = prediction,
                             output_file = No_file\<rparr>
                        | Inr prediction1 \<Rightarrow>
                            (let out_meta = meta\<lparr>count := 1, dtype := ''int16''\<rparr>
                             in case rio_open_w output out_meta of
                                  Opened \<Rightarrow>
                                    \<lparr>raised = None, prediction_after = prediction1,
                                     output_file = Written \<lparr>w_path = output,
                                       w_profile = out_meta, w_band1 = prediction1\<rparr>\<rparr>
                                | Refused e \<Rightarrow>
                                    \<lparr>raised = Some e, prediction_after = prediction1,
                                     output_file = No_file\<rparr>
                                | Created_then_raised e \<Rightarrow>
                                    \<lparr>raised = Some e, prediction_after = prediction1,
                                     output_file = Zero_filled output\<rparr>))))
      | _ \<Rightarrow>
          \<lparr>raised = Some (RasterioIOError rast), prediction_after = prediction,
           output_file = No_file\<rparr>)"

section \<open>Notions of the specification\<close>

text \<open>
  Thresholding as the specification words it: the array keeps its labels, shapes and
  attributes, and every cell \<open>p\<close> becomes \<open>p\<close> where the comparison holds and the
  replacement elsewhere.
\<close>

definition spec_threshold :: "('a \<Rightarrow> bool) \<Rightarrow> 'a \<Rightarrow> 'a dataarray \<Rightarrow> 'a dataarray \<Rightarrow> bool" where
  "spec_threshold keep replace d d' \<longleftrightarrow>
     nodatavals d' = nodatavals d \<and> scales d' = scales d \<and> offsets d' = offsets d \<and>
     length (planes d') = length (planes d) \<and>
     (\<forall>k<length (planes d).
        fst (planes d' ! k) = fst (planes d ! k) \<and>
        shape (snd (planes d' ! k)) = shape (snd (planes d ! k)) \<and>
        length (flat (snd (planes d' ! k))) = length (flat (snd (planes d ! k))) \<and>
        (\<forall>i<length (flat (snd (planes d ! k))).
           flat (snd (planes d' ! k)) ! i =
             (let p = flat (snd (planes d ! k)) ! i in if keep p then p else replace)))"

text \<open>A message lists a name when the name occurs in it.\<close>

fun starts_with :: "string \<Rightarrow> string \<Rightarrow> bool" where
  "starts_with [] txt = True"
| "starts_with (c # cs) [] = False"
| "starts_with (c # cs) (t # ts) = (c = t \<and> starts_with cs ts)"

fun lists_name :: "string \<Rightarrow> string \<Rightarrow> bool" where
  "lists_name name [] = (name = [])"
| "lists_name name (t # ts) = (starts_with name (t # ts) \<or> lists_name name ts)"




section \<open>32-bit floats\<close>

text \<open>
  The conversion of a Python scalar to a 32-bit float, for rasters of that data type: finite
  values are rational numbers, and the conversion rounds to the nearest number with 24
  significant bits, to the even one of two equally near, with exponents from \<open>-126\<close> on
  (below that the spacing stays that of exponent \<open>-126\<close>). Values beyond the largest 32-bit float, which
  become infinities, are outside this model. \<open>binade\<close> finds the binary exponent by
  halving or doubling, at most as often as its first argument says.
\<close>

definition pow2 :: "int \<Rightarrow> rat" where
  "pow2 e = (if 0 \<le> e then 2 ^ nat e else 1 / 2 ^ nat (- e))"

fun binade :: "nat \<Rightarrow> rat \<Rightarrow> int" where
  "binade 0 x = 0"
| "binade (Suc fuel) x =
     (if 2 \<le> x then binade fuel (x / 2) + 1
      else if x < 1 then binade fuel (x * 2) - 1
      else 0)"

definition round_half_even :: "rat \<Rightarrow> int" where
  "round_half_even y =
     (let f = \<lfloor>y\<rfloor>; d = y - of_int f
      in if d < 1 / 2 then f else if 1 / 2 < d then f + 1 else if even f then f else f + 1)"

definition to_float32 :: "rat \<Rightarrow> rat" where
  "to_float32 x =
     (if x = 0 then 0
      else let e = max (binade 300 \<bar>x\<bar>) (- 126); ulp = pow2 (e - 23)
           in sgn x * of_int (round_half_even (\<bar>x\<bar> / ulp)) * ulp)"

text \<open>The Python float \<^verbatim>\<open>0.1\<close>: the 64-bit float nearest to one tenth.\<close>

definition tenth :: rat where
  "tenth = 3602879701896397 / 36028797018963968"

text \<open>
  A loaded raster of 32-bit floats with one band of one pixel, which holds the 32-bit float
  nearest to one tenth; and the same raster with that pixel replaced by 0.
\<close>

definition haze :: "rat raster" where
  "haze =
     \<lparr>data = Attr \<lparr>planes = [(1, \<lparr>shape = (1, 1), flat = [13421773 / 134217728]\<rparr>)],
                    nodatavals = [NaN], scales = [1], offsets = [0]\<rparr>,
      bands = Attr (Some [''Haze'']),
      nodataval = Attr [NaN]\<rparr>"

definition haze_cleared :: "rat raster" where
  "haze_cleared =
     \<lparr>data = Attr \<lparr>planes = [(1, \<lparr>shape = (1, 1), flat = [0]\<rparr>)],
                    nodatavals = [NaN], scales = [1], offsets = [0]\<rparr>,
      bands = Attr (Some [''Haze'']),
      nodataval = Attr [NaN]\<rparr>"

section \<open>A small disk\<close>

text \<open>
  Two raster files for the concrete runs: a scene of three bands on a grid of one row and
  three columns with marker \<open>-9999\<close>, and a single-band raster with marker \<open>0\<close>. In both
  the first pixel is invalid.
\<close>

definition scene_file :: "int rasterfile" where
  "scene_file =
     \<lparr>rf_bands = [\<lparr>shape = (1, 3), flat = [-5, 0, 7]\<rparr>,
                  \<lparr>shape = (1, 3), flat = [12000, 3, 4]\<rparr>,
                  \<lparr>shape = (1, 3), flat = [1, 2, 9]\<rparr>],
      rf_nodatavals = [Finite (-9999), Finite (-9999), Finite (-9999)],
      rf_scales = [1, 1, 1],
      rf_offsets = [0, 0, 0],
      rf_profile = \<lparr>count = 3, dtype = ''uint16'',
                     other_meta = [(''driver'', ''GTiff''), (''width'', ''3''), (''height'', ''1'')]\<rparr>,
      rf_mask1 = \<lparr>shape = (1, 3), flat = [0, 255, 255]\<rparr>\<rparr>"

definition water_file :: "int rasterfile" where
  "water_file =
     \<lparr>rf_bands = [\<lparr>shape = (1, 3), flat = [0, 40, 41]\<rparr>],
      rf_nodatavals = [Finite 0],
      rf_scales = [1],
      rf_offsets = [0],
      rf_profile = \<lparr>count = 1, dtype = ''uint8'',
                     other_meta = [(''driver'', ''GTiff''), (''width'', ''3''), (''height'', ''1'')]\<rparr>,
      rf_mask1 = \<lparr>shape = (1, 3), flat = [0, 255, 255]\<rparr>\<rparr>"

definition disk :: "int filesystem" where
  "disk = [''scene.tif'' \<mapsto> RasterFile scene_file, ''water.tif'' \<mapsto> RasterFile water_file]"


definition read_only :: "string \<Rightarrow> profile \<Rightarrow> open_outcome" where
  "read_only path meta = Refused (RasterioIOError path)"


definition scene_names :: "string list" where
  "scene_names = [''Blue'', ''Green'', ''Red'']"

definition scene_data :: "int dataarray" where
  "scene_data =
     \<lparr>planes = [(1, \<lparr>shape = (1, 3), flat = [-5, 0, 7]\<rparr>),
                (2, \<lparr>shape = (1, 3), flat = [12000, 3, 4]\<rparr>),
                (3, \<lparr>shape = (1, 3), flat = [1, 2, 9]\<rparr>)],
      nodatavals = [Finite (-9999), Finite (-9999), Finite (-9999)],
      scales = [1, 1, 1],
      offsets = [0, 0, 0]\<rparr>"

text \<open>The object after \<^verbatim>\<open>Raster('scene.tif', ['Blue', 'Green', 'Red'])\<close>.\<close>

definition scene :: "int raster" where
  "scene = \<lparr>data = Attr scene_data, bands = Attr (Some scene_names),
            nodataval = Attr [Finite (-9999), Finite (-9999), Finite (-9999)]\<rparr>"

text \<open>The object after \<^verbatim>\<open>scene.dropindices(['Blue'])\<close>: the labels 2 and 3 stay.\<close>

definition scene_without_blue :: "int raster" where
  "scene_without_blue =
     \<lparr>data = Attr (scene_data\<lparr>planes :=
               [(2, \<lparr>shape = (1, 3), flat = [12000, 3, 4]\<rparr>),
                (3, \<lparr>shape = (1, 3), flat = [1, 2, 9]\<rparr>)]\<rparr>),
      bands = Attr (Some [''Green'', ''Red'']),
      nodataval = Attr [Finite (-9999), Finite (-9999), Finite (-9999)]\<rparr>"

text \<open>The object after \<^verbatim>\<open>Raster('water.tif', ['Water'])\<close>.\<close>

definition water :: "int raster" where
  "water =
     \<lparr>data = Attr \<lparr>planes = [(1, \<lparr>shape = (1, 3), flat = [0, 40, 41]\<rparr>)],
                    nodatavals = [Finite 0], scales = [1], offsets = [0]\<rparr>,
      bands = Attr (Some [''Water'']),
      nodataval = Attr [Finite 0]\<rparr>"

text \<open>
  An index function in the manner of \<^verbatim>\<open>xrasterlib.indices\<close>: it finds its input band by
  name in the band list it is given and returns a band under a new name.
\<close>

definition copy_band :: "string \<Rightarrow> string \<Rightarrow> int index_function" where
  "copy_band source new_name d bs factor =
     (case index_of bs source of
        None \<Rightarrow> Inl ValueError
      | Some i \<Rightarrow> if i < length (planes d) then Inr (snd (planes d ! i), new_name) else Inl IndexError)"

text \<open>The object after \<^verbatim>\<open>scene.preprocess(op='>', boundary=0, replace=0)\<close>.\<close>

definition scene_clipped :: "int raster" where
  "scene_clipped =
     scene\<lparr>data := Attr (scene_data\<lparr>planes :=
            [(1, \<lparr>shape = (1, 3), flat = [0, 0, 7]\<rparr>),
             (2, \<lparr>shape = (1, 3), flat = [12000, 3, 4]\<rparr>),
             (3, \<lparr>shape = (1, 3), flat = [1, 2, 9]\<rparr>)]\<rparr>)\<rparr>"

text \<open>
  The object after
  \<^verbatim>\<open>scene.addindices([copy_band('Red', 'RedCopy'), copy_band('RedCopy', 'Again')], 10000.0)\<close>.
\<close>

definition scene_with_copies :: "int raster" where
  "scene_with_copies =
     \<lparr>data = Attr \<lparr>planes = [(1, \<lparr>shape = (1, 3), flat = [-5, 0, 7]\<rparr>),
                (2, \<lparr>shape = (1, 3), flat = [12000, 3, 4]\<rparr>),
                (3, \<lparr>shape = (1, 3), flat = [1, 2, 9]\<rparr>),
                (4, \<lparr>shape = (1, 3), flat = [1, 2, 9]\<rparr>),
                (5, \<lparr>shape = (1, 3), flat = [1, 2, 9]\<rparr>)],
             nodatavals = [Finite (-9999), Finite (-9999), Finite (-9999)],
             scales = [1, 1, 1, 1, 1],
             offsets = [0, 0, 0, 0, 0]\<rparr>,
      bands = Attr (Some [''Blue'', ''Green'', ''Red'', ''RedCopy'', ''Again'']),
      nodataval = Attr [Finite (-9999), Finite (-9999), Finite (-9999)]\<rparr>"

text \<open>
  The object after
  \<^verbatim>\<open>scene.addindices([copy_band('Red', 'RedCopy'), copy_band('Red', 'RedCopy')], 10000.0)\<close>:
  the same index added twice, so the name \<^verbatim>\<open>RedCopy\<close> stands twice in the band list.
\<close>

definition scene_same_index_twice :: "int raster" where
  "scene_same_index_twice =
     \<lparr>data = Attr \<lparr>planes = [(1, \<lparr>shape = (1, 3), flat = [-5, 0, 7]\<rparr>),
                (2, \<lparr>shape = (1, 3), flat = [12000, 3, 4]\<rparr>),
                (3, \<lparr>shape = (1, 3), flat = [1, 2, 9]\<rparr>),
                (4, \<lparr>shape = (1, 3), flat = [1, 2, 9]\<rparr>),
                (5, \<lparr>shape = (1, 3), flat = [1, 2, 9]\<rparr>)],
             nodatavals = [Finite (-9999), Finite (-9999), Finite (-9999)],
             scales = [1, 1, 1, 1, 1],
             offsets = [0, 0, 0, 0, 0]\<rparr>,
      bands = Attr (Some [''Blue'', ''Green'', ''Red'', ''RedCopy'', ''RedCopy'']),
      nodataval = Attr [Finite (-9999), Finite (-9999), Finite (-9999)]\<rparr>"



section \<open>Lemmas on the operations\<close>

lemma get_bands_Some [simp]: "bands r = Attr (Some bs) \<Longrightarrow> get_bands r = Inr bs"
  by (simp add: get_bands_def)

lemma get_bands_Inr: "get_bands r = Inr bs \<longleftrightarrow> bands r = Attr (Some bs)"
  by (auto simp: get_bands_def split: attr.splits option.splits)

lemma scene_loaded: "init disk (Some ''scene.tif'') (Some scene_names) = Inr scene"
  by (simp add: init_def isfile_def open_rasterio_def disk_def scene_file_def scene_def
      scene_data_def upt_rec)

lemma water_loaded: "init disk (Some ''water.tif'') (Some [''Water'']) = Inr water"
  by (simp add: init_def isfile_def open_rasterio_def disk_def water_file_def water_def upt_rec)

lemma load_entry_points_agree:
  assumes "open_rasterio fs f = Inr d"
  shows "init fs (Some f) (Some names) =
           Inr \<lparr>data = Attr d, bands = Attr (Some names), nodataval = Attr (nodatavals d)\<rparr> \<and>
         readraster fs f (Some names) empty_raster =
           Inr \<lparr>data = Attr d, bands = Attr (Some names), nodataval = Attr (nodatavals d)\<rparr>"
  using assms
  by (auto simp: init_def readraster_def isfile_def open_rasterio_def empty_raster_def
      split: option.splits entry.splits)

subsection \<open>Thresholding\<close>

lemma where_da_threshold: "spec_threshold keep replace d (where_da keep replace d)"
  by (auto simp: spec_threshold_def where_da_def where_cells_def Let_def split: prod.splits)

lemma ops_gt: "ops ''>'' = Some (\<lambda>x y. x > y)"
  by (simp add: ops_def)

lemma ops_lt: "ops ''<'' = Some (\<lambda>x y. x < y)"
  by (simp add: ops_def)

lemma ops_None: "ops opr = None \<longleftrightarrow> opr \<notin> {''<'', ''>''}"
  by (auto simp: ops_def)

lemma where_da_idem:
  "where_da (\<lambda>p. p > b) replace (where_da (\<lambda>p. p > b) replace d) = where_da (\<lambda>p. p > b) replace d"
  by (simp add: where_da_def where_cells_def comp_def case_prod_beta)

lemma round_tenth: "round_half_even (3602879701896397 / 268435456) = 13421773"
proof -
  have "\<lfloor>(3602879701896397 :: rat) / 268435456\<rfloor> = 13421772"
    by (rule floor_unique) simp_all
  then show ?thesis by (simp add: round_half_even_def Let_def)
qed

lemma binade_tenth: "binade 300 \<bar>tenth\<bar> = - 4"
  by (simp add: tenth_def numeral_eq_Suc)

lemma to_float32_tenth: "to_float32 tenth = 13421773 / 134217728"
proof -
  have nz: "tenth \<noteq> 0" and sg: "sgn tenth = 1" by (simp_all add: tenth_def)
  have ulp: "pow2 (- 27) = 1 / 134217728" by (simp add: pow2_def)
  have q: "\<bar>tenth\<bar> / (1 / 134217728) = 3602879701896397 / 268435456"
    by (simp add: tenth_def)
  have "to_float32 tenth =
      sgn tenth * of_int (round_half_even (\<bar>tenth\<bar> / pow2 (- 27))) * pow2 (- 27)"
    unfolding to_float32_def binade_tenth using nz by (simp add: Let_def)
  also have "\<dots> = 13421773 / 134217728"
    unfolding ulp q round_tenth sg by simp
  finally show ?thesis .
qed

lemma to_float32_zero: "to_float32 0 = 0"
  by (simp add: to_float32_def)

lemma length_planes_where_da: "length (planes (where_da keep replace d)) = length (planes d)"
  by (simp add: where_da_def)

lemma preprocess_invariant:
  assumes "band_invariant r" and "preprocess astype opr b replace r = Inr r'"
  shows "band_invariant r'"
  using assms
  by (auto simp: preprocess_def band_invariant_def length_planes_where_da
      split: attr.splits option.splits)

subsection \<open>Dropping bands\<close>

lemma all_present_list:
  "bands r = Attr (Some bs) \<Longrightarrow> all_present r names = Inr (list_all (\<lambda>n. n \<in> set bs) names)"
  by (induction names) auto

lemma index_of_Some:
  "x \<in> set bs \<Longrightarrow> \<exists>i. index_of bs x = Some i \<and> i < length bs \<and> bs ! i = x"
  by (induction bs) auto

lemma dropind_of_list:
  "bands r = Attr (Some bs) \<Longrightarrow> set names \<subseteq> set bs \<Longrightarrow>
   dropind_of r names = Inr (map (\<lambda>n. int (the (index_of bs n)) + 1) names)"
proof (induction names)
  case Nil
  then show ?case by simp
next
  case (Cons n names)
  from Cons.prems obtain i where "index_of bs n = Some i"
    using index_of_Some [of n bs] by auto
  with Cons show ?case by simp
qed

lemma index_of_distinct:
  "distinct bs \<Longrightarrow> k < length bs \<Longrightarrow> index_of bs (bs ! k) = Some k"
proof (induction bs arbitrary: k)
  case Nil
  then show ?case by simp
next
  case (Cons b bs)
  show ?case
  proof (cases k)
    case 0
    then show ?thesis by simp
  next
    case (Suc j)
    with Cons.prems have "j < length bs" "bs ! j \<noteq> b" by auto
    with Cons Suc show ?thesis by auto
  qed
qed

lemma filter_by_name:
  "list_all2 (\<lambda>b p. P p = Q b) bs ps \<Longrightarrow>
   filter P ps = map snd (filter (\<lambda>x. Q (fst x)) (zip bs ps))"
  by (induction rule: list_all2_induct) auto

lemma dropindices_fresh_labels:
  assumes bs: "bands r = Attr (Some bs)" and d: "data r = Attr d"
    and lab: "map fst (planes d) = map int [1..<Suc (length bs)]"
    and dist: "distinct bs" and sub: "set names \<subseteq> set bs"
  shows "dropindices names r =
     Inr (r\<lparr>data := Attr (d\<lparr>planes :=
                 map snd (filter (\<lambda>x. fst x \<notin> set names) (zip bs (planes d)))\<rparr>),
            bands := Attr (Some (filter (\<lambda>b. b \<notin> set names) bs))\<rparr>)"
proof -
  let ?L = "map (\<lambda>n. int (the (index_of bs n)) + 1) names"
  from lab have len: "length (planes d) = length bs"
    using length_map [of fst "planes d"] by (simp del: upt_Suc)
  have label: "fst (planes d ! k) = int k + 1" if "k < length bs" for k
  proof -
    from that len have "fst (planes d ! k) = map fst (planes d) ! k" by simp
    also have "\<dots> = int ([1..<Suc (length bs)] ! k)"
      using that unfolding lab by (simp del: upt_Suc)
    also have "\<dots> = int k + 1" using that by (simp del: upt_Suc)
    finally show ?thesis .
  qed
  have hit: "(int k + 1 \<in> set ?L) = (bs ! k \<in> set names)" if k: "k < length bs" for k
  proof
    assume "int k + 1 \<in> set ?L"
    then obtain n where n: "n \<in> set names" "int k + 1 = int (the (index_of bs n)) + 1" by auto
    from n(1) sub obtain j where j: "index_of bs n = Some j" "bs ! j = n"
      using index_of_Some [of n bs] by auto
    with n show "bs ! k \<in> set names" by simp
  next
    assume "bs ! k \<in> set names"
    moreover have "index_of bs (bs ! k) = Some k" using dist k by (rule index_of_distinct)
    ultimately show "int k + 1 \<in> set ?L" by force
  qed
  have found: "\<not> list_ex (\<lambda>l. l \<notin> set (map fst (planes d))) ?L"
  proof -
    have "l \<in> set (map fst (planes d))" if "l \<in> set ?L" for l
    proof -
      from that obtain n where n: "n \<in> set names" "l = int (the (index_of bs n)) + 1" by auto
      from n(1) sub obtain j where j: "index_of bs n = Some j" "j < length bs"
        using index_of_Some [of n bs] by auto
      with n label [of j] len have "l = fst (planes d ! j)" "j < length (planes d)" by simp_all
      then show ?thesis by (metis length_map nth_map nth_mem)
    qed
    then show ?thesis by (auto simp: list_ex_iff)
  qed
  have "list_all2 (\<lambda>b p. (fst p \<notin> set ?L) = (b \<notin> set names)) bs (planes d)"
    using len label hit by (simp add: list_all2_conv_all_nth)
  then have planes: "filter (\<lambda>p. fst p \<notin> set ?L) (planes d) =
      map snd (filter (\<lambda>x. fst x \<notin> set names) (zip bs (planes d)))"
    by (rule filter_by_name)
  from sub have present: "list_all (\<lambda>n. n \<in> set bs) names" by (auto simp: list_all_iff)
  from bs d present sub found planes show ?thesis
    by (simp add: dropindices_def all_present_list dropind_of_list get_data_def drop_labels_def
        Let_def)
qed

lemma length_filter_labels:
  assumes "distinct (map fst ps)" and "set L \<subseteq> set (map fst ps)"
  shows "length (filter (\<lambda>p. fst p \<notin> set L) ps) = length ps - card (set L)"
proof -
  have "length (filter (\<lambda>p. fst p \<notin> set L) ps) = length (filter (\<lambda>c. c \<notin> set L) (map fst ps))"
    by (simp add: filter_map comp_def)
  also have "\<dots> = card ({c. c \<notin> set L} \<inter> set (map fst ps))"
    using assms(1) by (rule distinct_length_filter)
  also have "{c. c \<notin> set L} \<inter> set (map fst ps) = set (map fst ps) - set L" by auto
  also have "card \<dots> = card (set (map fst ps)) - card (set L)"
    using assms(2) by (simp add: card_Diff_subset)
  also have "card (set (map fst ps)) = length ps"
    using assms(1) distinct_card [of "map fst ps"] by simp
  finally show ?thesis .
qed

lemma length_filter_names:
  assumes "distinct bs" and "set names \<subseteq> set bs"
  shows "length (filter (\<lambda>b. b \<notin> set names) bs) = length bs - card (set names)"
  using length_filter_labels [of "map (\<lambda>b. (b, ())) bs" names] assms
  by (simp add: comp_def filter_map)

lemma card_labels:
  assumes "set names \<subseteq> set bs"
  shows "card (set (map (\<lambda>n. int (the (index_of bs n)) + 1) names)) = card (set names)"
proof -
  have "inj_on (\<lambda>n. int (the (index_of bs n)) + 1) (set names)"
  proof (rule inj_onI)
    fix x y assume x: "x \<in> set names" and y: "y \<in> set names"
      and eq: "int (the (index_of bs x)) + 1 = int (the (index_of bs y)) + 1"
    from x assms obtain i where i: "index_of bs x = Some i" "bs ! i = x"
      using index_of_Some [of x bs] by auto
    from y assms obtain j where j: "index_of bs y = Some j" "bs ! j = y"
      using index_of_Some [of y bs] by auto
    from eq i j show "x = y" by simp
  qed
  then show ?thesis by (simp add: card_image)
qed

lemma dropindices_invariant:
  assumes inv: "band_invariant r" and bs: "bands r = Attr (Some bs)" and d: "data r = Attr d"
    and dist: "distinct bs" "distinct (map fst (planes d))"
    and run: "dropindices names r = Inr r'"
  shows "band_invariant r'"
proof -
  from run bs have present: "list_all (\<lambda>n. n \<in> set bs) names"
    by (auto simp: dropindices_def all_present_list split: if_splits)
  then have sub: "set names \<subseteq> set bs" by (auto simp: list_all_iff)
  let ?L = "map (\<lambda>n. int (the (index_of bs n)) + 1) names"
  from run bs d present sub have ok: "\<not> list_ex (\<lambda>l. l \<notin> set (map fst (planes d))) ?L"
    and r': "r' = r\<lparr>data := Attr (d\<lparr>planes := filter (\<lambda>p. fst p \<notin> set ?L) (planes d)\<rparr>),
                   bands := Attr (Some (filter (\<lambda>b. b \<notin> set names) bs))\<rparr>"
    by (auto simp: dropindices_def all_present_list dropind_of_list get_data_def drop_labels_def
        Let_def split: if_splits)
  from ok have Lsub: "set ?L \<subseteq> set (map fst (planes d))"
    by (auto simp: list_ex_iff)
  from inv bs d have len: "length bs = length (planes d)" by (simp add: band_invariant_def)
  have "length (filter (\<lambda>p. fst p \<notin> set ?L) (planes d)) = length (planes d) - card (set ?L)"
    using dist(2) Lsub by (rule length_filter_labels)
  moreover have "length (filter (\<lambda>b. b \<notin> set names) bs) = length bs - card (set names)"
    using dist(1) sub by (rule length_filter_names)
  ultimately show ?thesis
    using len card_labels [OF sub] by (simp add: r' band_invariant_def)
qed

subsection \<open>Adding bands\<close>

lemma addindices_loop_trace:
  assumes "addindices_loop fs factor n r = Inr (n', r1)"
    and "data r = Attr d" and "bands r = Attr (Some bs)"
  shows "n' = n + length fs \<and>
         (\<exists>P N. data r1 = Attr (d\<lparr>planes := planes d @ P\<rparr>) \<and> bands r1 = Attr (Some (bs @ N)) \<and>
            nodataval r1 = nodataval r \<and> length P = length fs \<and> length N = length fs \<and>
            (\<forall>i<length fs.
               (fs ! i) (d\<lparr>planes := planes d @ take i P\<rparr>) (bs @ take i N) factor =
                 Inr (snd (P ! i), N ! i) \<and>
               fst (P ! i) = int (n + i + 1)))"
  using assms
proof (induction fs arbitrary: n r d bs)
  case Nil
  then show ?case by simp
next
  case (Cons f fs)
  from Cons.prems obtain band bandid where call: "f d bs factor = Inr (band, bandid)"
    and rest: "addindices_loop fs factor (Suc n)
                 (r\<lparr>bands := Attr (Some (bs @ [bandid])),
                    data := Attr (concat_band d (int (Suc n)) band)\<rparr>) = Inr (n', r1)"
    by (auto simp: get_data_def split: sum.splits)
  let ?d2 = "concat_band d (int (Suc n)) band"
  let ?r2 = "r\<lparr>bands := Attr (Some (bs @ [bandid])), data := Attr ?d2\<rparr>"
  from Cons.IH [OF rest, of ?d2 "bs @ [bandid]"]
  obtain P N where n': "n' = Suc n + length fs"
    and s: "data r1 = Attr (?d2\<lparr>planes := planes ?d2 @ P\<rparr>)"
       "bands r1 = Attr (Some ((bs @ [bandid]) @ N))"
       "nodataval r1 = nodataval ?r2" "length P = length fs" "length N = length fs"
    and calls: "\<forall>i<length fs.
        (fs ! i) (?d2\<lparr>planes := planes ?d2 @ take i P\<rparr>) ((bs @ [bandid]) @ take i N) factor =
          Inr (snd (P ! i), N ! i) \<and>
        fst (P ! i) = int (Suc n + i + 1)"
    by auto
  let ?P = "(int (Suc n), band) # P" and ?N = "bandid # N"
  have "\<forall>i<length (f # fs).
      ((f # fs) ! i) (d\<lparr>planes := planes d @ take i ?P\<rparr>) (bs @ take i ?N) factor =
        Inr (snd (?P ! i), ?N ! i) \<and>
      fst (?P ! i) = int (n + i + 1)"
  proof (intro allI impI)
    fix i assume i: "i < length (f # fs)"
    show "((f # fs) ! i) (d\<lparr>planes := planes d @ take i ?P\<rparr>) (bs @ take i ?N) factor =
        Inr (snd (?P ! i), ?N ! i) \<and>
      fst (?P ! i) = int (n + i + 1)"
    proof (cases i)
      case 0
      with call show ?thesis by simp
    next
      case (Suc j)
      with i have "j < length fs" by simp
      with calls Suc show ?thesis by (simp add: concat_band_def)
    qed
  qed
  moreover have "data r1 = Attr (d\<lparr>planes := planes d @ ?P\<rparr>)"
    using s(1) by (simp add: concat_band_def)
  moreover have "bands r1 = Attr (Some (bs @ ?N))" using s(2) by simp
  moreover have "nodataval r1 = nodataval r" using s(3) by simp
  ultimately show ?case using n' s(4,5) by (intro conjI exI[of _ ?P] exI[of _ ?N]) simp_all
qed

lemma addindices_trace:
  assumes "addindices fs factor r = Inr r'"
  shows "\<exists>bs d d' P N.
           bands r = Attr (Some bs) \<and> data r = Attr d \<and>
           bands r' = Attr (Some (bs @ N)) \<and> data r' = Attr d' \<and> planes d' = planes d @ P \<and>
           length N = length fs \<and> length P = length fs \<and>
           (\<forall>i<length fs.
              (fs ! i) (d\<lparr>planes := planes d @ take i P\<rparr>) (bs @ take i N) factor =
                Inr (snd (P ! i), N ! i) \<and>
              fst (P ! i) = int (length bs + i + 1))"
proof -
  from assms obtain bs where bs: "bands r = Attr (Some bs)"
    by (auto simp: addindices_def get_bands_Inr split: sum.splits)
  from assms bs obtain n r1 where loop: "addindices_loop fs factor (length bs) r = Inr (n, r1)"
    by (auto simp: addindices_def split: sum.splits)
  from assms bs loop obtain d1 where d1: "data r1 = Attr d1"
    by (auto simp: addindices_def get_data_def split: sum.splits attr.splits)
  have "\<exists>d. data r = Attr d"
  proof (cases fs)
    case Nil
    with loop d1 show ?thesis by simp
  next
    case (Cons f fs')
    with loop show ?thesis by (auto simp: get_data_def split: sum.splits attr.splits)
  qed
  then obtain d where d: "data r = Attr d" ..
  from addindices_loop_trace [OF loop d bs]
  obtain P N where n: "n = length bs + length fs"
    and s: "data r1 = Attr (d\<lparr>planes := planes d @ P\<rparr>)" "bands r1 = Attr (Some (bs @ N))"
       "length P = length fs" "length N = length fs"
    and calls: "\<forall>i<length fs.
       (fs ! i) (d\<lparr>planes := planes d @ take i P\<rparr>) (bs @ take i N) factor =
         Inr (snd (P ! i), N ! i) \<and>
       fst (P ! i) = int (length bs + i + 1)"
    by auto
  from assms bs loop s(1) obtain d' where "data r' = Attr d'" "planes d' = planes d @ P"
    and "bands r' = bands r1"
    by (auto simp: addindices_def get_data_def Let_def split: list.splits)
  with bs d s calls show ?thesis by auto
qed

lemma addindices_invariant:
  assumes "band_invariant r" and "addindices fs factor r = Inr r'"
  shows "band_invariant r'"
proof -
  from addindices_trace [OF assms(2)] obtain bs d d' P N where
    "bands r = Attr (Some bs)" "data r = Attr d" "bands r' = Attr (Some (bs @ N))"
    "data r' = Attr d'" "planes d' = planes d @ P" "length N = length fs" "length P = length fs"
    by blast
  with assms(1) show ?thesis by (simp add: band_invariant_def)
qed

lemma raster_same:
  "data r = Attr d \<Longrightarrow> bands r = Attr (Some bs) \<Longrightarrow>
   r\<lparr>bands := Attr (Some bs), data := Attr d\<rparr> = r"
  by (cases r) simp

lemma addindices_loop_run:
  assumes "data r = Attr d" and "bands r = Attr (Some bs)"
    and "length P = length fs" and "length N = length fs"
    and "\<forall>i<length fs.
           (fs ! i) (d\<lparr>planes := planes d @ take i P\<rparr>) (bs @ take i N) factor =
             Inr (snd (P ! i), N ! i) \<and>
           fst (P ! i) = int (n + i + 1)"
  shows "addindices_loop fs factor n r =
           Inr (n + length fs,
                r\<lparr>bands := Attr (Some (bs @ N)), data := Attr (d\<lparr>planes := planes d @ P\<rparr>)\<rparr>)"
  using assms
proof (induction fs arbitrary: n r d bs P N)
  case Nil
  then show ?case by (simp add: raster_same)
next
  case (Cons f fs)
  from Cons.prems(3,4) obtain p P' nm N' where P: "P = p # P'" and N: "N = nm # N'"
    and lens: "length P' = length fs" "length N' = length fs"
    by (cases P; cases N) auto
  from Cons.prems(5) [rule_format, of 0] P N
  have call: "f d bs factor = Inr (snd p, nm)" and lab: "fst p = int (Suc n)"
    by simp_all
  let ?d2 = "concat_band d (int (Suc n)) (snd p)"
  let ?r2 = "r\<lparr>bands := Attr (Some (bs @ [nm])), data := Attr ?d2\<rparr>"
  have p_eq: "(int (Suc n), snd p) = p" using lab by (cases p) simp
  have rest: "\<forall>i<length fs.
      (fs ! i) (?d2\<lparr>planes := planes ?d2 @ take i P'\<rparr>) ((bs @ [nm]) @ take i N') factor =
        Inr (snd (P' ! i), N' ! i) \<and>
      fst (P' ! i) = int (Suc n + i + 1)"
  proof (intro allI impI)
    fix i assume i: "i < length fs"
    then have "Suc i < length (f # fs)" by simp
    from Cons.prems(5) [rule_format, OF this]
    have "((f # fs) ! Suc i) (d\<lparr>planes := planes d @ take (Suc i) P\<rparr>)
        (bs @ take (Suc i) N) factor = Inr (snd (P ! Suc i), N ! Suc i) \<and>
        fst (P ! Suc i) = int (n + Suc i + 1)" .
    with P N p_eq show "(fs ! i) (?d2\<lparr>planes := planes ?d2 @ take i P'\<rparr>)
        ((bs @ [nm]) @ take i N') factor = Inr (snd (P' ! i), N' ! i) \<and>
        fst (P' ! i) = int (Suc n + i + 1)"
      by (simp add: concat_band_def)
  qed
  have "data ?r2 = Attr ?d2" "bands ?r2 = Attr (Some (bs @ [nm]))" by simp_all
  from Cons.IH [OF this lens rest] call Cons.prems(1,2) P N p_eq show ?case
    by (simp add: get_data_def concat_band_def)
qed

lemma addindices_run:
  assumes "bands r = Attr (Some bs)" and "data r = Attr d"
    and "scales d = s # ss" and "offsets d = off # offs"
    and "length P = length fs" and "length N = length fs"
    and "\<forall>i<length fs.
           (fs ! i) (d\<lparr>planes := planes d @ take i P\<rparr>) (bs @ take i N) factor =
             Inr (snd (P ! i), N ! i) \<and>
           fst (P ! i) = int (length bs + i + 1)"
  shows "addindices fs factor r =
           Inr (r\<lparr>bands := Attr (Some (bs @ N)),
                  data := Attr (d\<lparr>planes := planes d @ P,
                                  scales := replicate (length bs + length fs) s,
                                  offsets := replicate (length bs + length fs) off\<rparr>)\<rparr>)"
  using addindices_loop_run [OF assms(2,1,5,6,7)] assms(1,3,4)
  by (simp add: addindices_def get_data_def Let_def)

lemma addindices_state:
  assumes run: "addindices fs factor r = Inr r'"
  shows "\<exists>bs d s ss off offs P N.
           bands r = Attr (Some bs) \<and> data r = Attr d \<and>
           scales d = s # ss \<and> offsets d = off # offs \<and>
           length P = length fs \<and> length N = length fs \<and>
           (\<forall>i<length fs.
              (fs ! i) (d\<lparr>planes := planes d @ take i P\<rparr>) (bs @ take i N) factor =
                Inr (snd (P ! i), N ! i) \<and>
              fst (P ! i) = int (length bs + i + 1)) \<and>
           r' = r\<lparr>bands := Attr (Some (bs @ N)),
                  data := Attr (d\<lparr>planes := planes d @ P,
                                  scales := replicate (length bs + length fs) s,
                                  offsets := replicate (length bs + length fs) off\<rparr>)\<rparr>"
proof -
  from addindices_trace [OF run] obtain bs d d' P N where
    t: "bands r = Attr (Some bs) \<and> data r = Attr d \<and>
        bands r' = Attr (Some (bs @ N)) \<and> data r' = Attr d' \<and> planes d' = planes d @ P \<and>
        length N = length fs \<and> length P = length fs \<and>
        (\<forall>i<length fs.
           (fs ! i) (d\<lparr>planes := planes d @ take i P\<rparr>) (bs @ take i N) factor =
             Inr (snd (P ! i), N ! i) \<and>
           fst (P ! i) = int (length bs + i + 1))"
    by (elim exE) (rule that)
  from t have bs: "bands r = Attr (Some bs)" and d: "data r = Attr d"
    and lP: "length P = length fs" and lN: "length N = length fs"
    and calls: "\<forall>i<length fs.
           (fs ! i) (d\<lparr>planes := planes d @ take i P\<rparr>) (bs @ take i N) factor =
             Inr (snd (P ! i), N ! i) \<and>
           fst (P ! i) = int (length bs + i + 1)"
    by simp_all
  note loop = addindices_loop_run [OF d bs lP lN calls]
  from run bs loop obtain s ss where s: "scales d = s # ss"
    by (cases "scales d") (auto simp: addindices_def get_data_def)
  from run bs loop s obtain off offs where off: "offsets d = off # offs"
    by (cases "offsets d") (auto simp: addindices_def get_data_def Let_def)
  from run addindices_run [OF bs d s off lP lN calls]
  have r': "r' = r\<lparr>bands := Attr (Some (bs @ N)),
                  data := Attr (d\<lparr>planes := planes d @ P,
                                  scales := replicate (length bs + length fs) s,
                                  offsets := replicate (length bs + length fs) off\<rparr>)\<rparr>"
    by simp
  show ?thesis
  proof (intro exI)
    from bs d s off lP lN calls r' show "bands r = Attr (Some bs) \<and> data r = Attr d \<and>
           scales d = s # ss \<and> offsets d = off # offs \<and>
           length P = length fs \<and> length N = length fs \<and>
           (\<forall>i<length fs.
              (fs ! i) (d\<lparr>planes := planes d @ take i P\<rparr>) (bs @ take i N) factor =
                Inr (snd (P ! i), N ! i) \<and>
              fst (P ! i) = int (length bs + i + 1)) \<and>
           r' = r\<lparr>bands := Attr (Some (bs @ N)),
                  data := Attr (d\<lparr>planes := planes d @ P,
                                  scales := replicate (length bs + length fs) s,
                                  offsets := replicate (length bs + length fs) off\<rparr>)\<rparr>"
      by (intro conjI) assumption+
  qed
qed

lemma copy_band_run:
  "addindices [copy_band ''Red'' ''RedCopy'', copy_band ''RedCopy'' ''Again''] 10000 scene =
     Inr \<lparr>data = Attr \<lparr>planes = [(1, \<lparr>shape = (1, 3), flat = [-5, 0, 7]\<rparr>),
                (2, \<lparr>shape = (1, 3), flat = [12000, 3, 4]\<rparr>),
                (3, \<lparr>shape = (1, 3), flat = [1, 2, 9]\<rparr>),
                (4, \<lparr>shape = (1, 3), flat = [1, 2, 9]\<rparr>),
                (5, \<lparr>shape = (1, 3), flat = [1, 2, 9]\<rparr>)],
             nodatavals = [Finite (-9999), Finite (-9999), Finite (-9999)],
             scales = [1, 1, 1, 1, 1],
             offsets = [0, 0, 0, 0, 0]\<rparr>,
          bands = Attr (Some [''Blue'', ''Green'', ''Red'', ''RedCopy'', ''Again'']),
          nodataval = Attr [Finite (-9999), Finite (-9999), Finite (-9999)]\<rparr>"
  by (simp add: addindices_def scene_def scene_names_def scene_data_def get_bands_def get_data_def
      copy_band_def concat_band_def numeral_eq_Suc)

subsection \<open>Stamping the prediction\<close>











lemma store_int16_nan: "store_int16 NaN = Inl ValueError"
  by (simp add: store_int16_def)


text \<open>A marker that is not a number stops the call before anything is stamped or written.\<close>

lemma toraster_nan_marker:
  assumes "fs rast = Some (RasterFile rf)" and "nodataval r = Attr (NaN # rest)"
  shows "toraster fs rio_open_w r rast prediction output =
           \<lparr>raised = Some ValueError, prediction_after = prediction, output_file = No_file\<rparr>"
  using assms by (simp add: toraster_def store_int16_nan)


section \<open>The two ways of loading\<close>

text \<open>
  C1. The claim: constructing with a path and a band list, and constructing empty and then
  calling \<^verbatim>\<open>readraster\<close>, end in the same state and fail alike, with \<open>NotFoundError\<close> for
  a missing file and \<open>ConfigurationError\<close> for an omitted band list. The constructor
  makes both checks; \<^verbatim>\<open>readraster\<close> makes neither. On the existing file \<^verbatim>\<open>scene.tif\<close> with
  the band list \<^verbatim>\<open>None\<close> the constructor raises, while \<^verbatim>\<open>readraster\<close> completes and leaves
  \<^verbatim>\<open>bands\<close> holding \<^verbatim>\<open>None\<close>; on a missing file the constructor raises its own
  \<open>RuntimeError\<close>, while \<^verbatim>\<open>readraster\<close> lets the library's error through.
\<close>

theorem load_entry_points_differ:
  "init disk (Some ''scene.tif'') None =
     Inl (RuntimeError ''Must specify band names. Refer to documentation for details.'') \<and>
   init disk None None = Inr empty_raster \<and>
   readraster disk ''scene.tif'' None empty_raster =
     Inr \<lparr>data = Attr scene_data, bands = Attr None, nodataval = Attr [Finite (-9999), Finite (-9999), Finite (-9999)]\<rparr> \<and>
   init disk (Some ''missing.tif'') (Some scene_names) =
     Inl (RuntimeError ''missing.tif does not exist'') \<and>
   readraster disk ''missing.tif'' (Some scene_names) empty_raster =
     Inl (RasterioIOError ''missing.tif'', empty_raster)"
  by (simp add: init_def readraster_def isfile_def open_rasterio_def disk_def scene_file_def
      scene_data_def empty_raster_def upt_rec)

section \<open>Thresholding\<close>

text \<open>
  C6, as claimed: for every boundary scalar \<open>b\<close>, after \<^verbatim>\<open>preprocess('>', b, r)\<close> a pixel
  \<open>p\<close> with \<open>p > b\<close> is kept. On a raster of 32-bit floats the boundary \<^verbatim>\<open>0.1\<close> is
  first converted to the nearest 32-bit float, which is greater than \<^verbatim>\<open>0.1\<close>; the pixel that
  holds exactly that float is greater than \<^verbatim>\<open>0.1\<close>, but not greater than the converted
  boundary, and is replaced.
\<close>

theorem preprocess_threshold_counterexample:
  "tenth < 13421773 / 134217728 \<and>
   to_float32 tenth = 13421773 / 134217728 \<and>
   preprocess to_float32 ''>'' tenth 0 haze = Inr haze_cleared"
  by (simp add: preprocess_def ops_gt to_float32_tenth to_float32_zero haze_def haze_cleared_def
      where_da_def where_cells_def)
    (simp add: tenth_def)

text \<open>
  C6, amended. On a raster that holds pixel data, \<^verbatim>\<open>preprocess('>', b, r)\<close> completes and turns
  every pixel \<open>p\<close> of every band into \<open>p\<close> if \<open>p > b'\<close> and into \<open>r'\<close> otherwise, where
  \<open>b'\<close> and \<open>r'\<close> are the boundary and the replacement as converted to the data type of the
  raster; \<^verbatim>\<open>preprocess('<', b, r)\<close> does the same with \<open>p < b'\<close>. For a boundary and a
  replacement which that data type holds exactly, this is \<open>p > b\<close> (or \<open>p < b\<close>), \<open>p\<close>,
  else \<open>r\<close>. Labels, shapes and attributes of the array are unchanged, and so are the other
  attributes of the object.
\<close>

theorem preprocess_threshold:
  assumes "data r = Attr d"
  shows "\<exists>d1 d2.
     preprocess astype ''>'' b replace r = Inr (r\<lparr>data := Attr d1\<rparr>) \<and>
     spec_threshold (\<lambda>p. p > astype b) (astype replace) d d1 \<and>
     preprocess astype ''<'' b replace r = Inr (r\<lparr>data := Attr d2\<rparr>) \<and>
     spec_threshold (\<lambda>p. p < astype b) (astype replace) d d2 \<and>
     (astype b = b \<and> astype replace = replace \<longrightarrow>
        spec_threshold (\<lambda>p. p > b) replace d d1 \<and> spec_threshold (\<lambda>p. p < b) replace d d2)"
proof (intro exI conjI impI)
  show "preprocess astype ''>'' b replace r =
      Inr (r\<lparr>data := Attr (where_da (\<lambda>p. p > astype b) (astype replace) d)\<rparr>)"
    using assms by (simp add: preprocess_def ops_gt)
  show "preprocess astype ''<'' b replace r =
      Inr (r\<lparr>data := Attr (where_da (\<lambda>p. p < astype b) (astype replace) d)\<rparr>)"
    using assms by (simp add: preprocess_def ops_lt)
  show "spec_threshold (\<lambda>p. p > astype b) (astype replace) d
      (where_da (\<lambda>p. p > astype b) (astype replace) d)"
    by (rule where_da_threshold)
  show "spec_threshold (\<lambda>p. p < astype b) (astype replace) d
      (where_da (\<lambda>p. p < astype b) (astype replace) d)"
    by (rule where_da_threshold)
next
  assume same: "astype b = b \<and> astype replace = replace"
  show "spec_threshold (\<lambda>p. p > b) replace d (where_da (\<lambda>p. p > astype b) (astype replace) d)"
    using where_da_threshold [of "\<lambda>p. p > b" replace d] same by simp
  show "spec_threshold (\<lambda>p. p < b) replace d (where_da (\<lambda>p. p < astype b) (astype replace) d)"
    using where_da_threshold [of "\<lambda>p. p < b" replace d] same by simp
qed

text \<open>
  The theorem on the scene, whose integer cells hold the boundary 0 and the replacement 0
  exactly: clipped below at 0, the pixel \<open>-5\<close> becomes \<open>0\<close>.
\<close>

theorem preprocess_threshold_witness:
  "data scene = Attr scene_data \<and> id (0 :: int) = 0 \<and>
   preprocess id ''>'' 0 0 scene = Inr scene_clipped \<and>
   (\<exists>d1 d2.
     preprocess id ''>'' 0 0 scene = Inr (scene\<lparr>data := Attr d1\<rparr>) \<and>
     spec_threshold (\<lambda>p. p > id 0) (id 0) scene_data d1 \<and>
     preprocess id ''<'' 0 0 scene = Inr (scene\<lparr>data := Attr d2\<rparr>) \<and>
     spec_threshold (\<lambda>p. p < id 0) (id 0) scene_data d2 \<and>
     (id (0 :: int) = 0 \<and> id (0 :: int) = 0 \<longrightarrow>
        spec_threshold (\<lambda>p. p > 0) 0 scene_data d1 \<and> spec_threshold (\<lambda>p. p < 0) 0 scene_data d2))"
proof -
  have h: "data scene = Attr scene_data" by (simp add: scene_def)
  have c: "id (0 :: int) = 0" by simp
  have e: "preprocess id ''>'' 0 0 scene = Inr scene_clipped"
    by (simp add: preprocess_def ops_gt scene_def scene_data_def where_da_def where_cells_def
        scene_clipped_def)
  note t = preprocess_threshold [OF h, where astype = id and b = 0 and replace = 0]
  from h c e t show ?thesis by (intro conjI) assumption+
qed

text \<open>
  C7. On a raster that holds pixel data, \<^verbatim>\<open>preprocess('>', b, r)\<close> completes, and applied
  again to the state it leaves it completes with that same state, whatever the conversion
  of the scalars to the data type of the raster is.
\<close>

theorem preprocess_idempotent:
  assumes "data r = Attr d"
  shows "\<exists>r1. preprocess astype ''>'' b replace r = Inr r1 \<and>
           preprocess astype ''>'' b replace r1 = Inr r1"
  using assms by (simp add: preprocess_def ops_gt where_da_idem)

text \<open>The theorem on the scene, with boundary 3 and replacement 5000.\<close>

theorem preprocess_idempotent_witness:
  "data scene = Attr scene_data \<and>
   (\<exists>r1. preprocess id ''>'' 3 5000 scene = Inr r1 \<and> preprocess id ''>'' 3 5000 r1 = Inr r1)"
proof -
  have h: "data scene = Attr scene_data" by (simp add: scene_def)
  from h preprocess_idempotent [OF h, where astype = id and b = 3 and replace = 5000]
  show ?thesis by (intro conjI) assumption+
qed

text \<open>
  C8. On a raster that holds pixel data, \<^verbatim>\<open>preprocess\<close> raises if and only if the operator
  is neither \<^verbatim>\<open><\<close> nor \<^verbatim>\<open>>\<close>; what it raises then is the \<open>KeyError\<close> of the lookup in the
  two-entry dictionary, and the object is left as it was.
\<close>

theorem preprocess_operator_check:
  assumes "data r = Attr d"
  shows "((\<exists>e s. preprocess astype opr b replace r = Inl (e, s)) \<longleftrightarrow> opr \<notin> {''<'', ''>''}) \<and>
         (opr \<notin> {''<'', ''>''} \<longrightarrow> preprocess astype opr b replace r = Inl (KeyError opr, r))"
  using assms ops_None [of opr, where ?'a = 'a]
  by (auto simp: preprocess_def split: option.splits)

text \<open>The theorem on the scene, with the operator \<^verbatim>\<open>>=\<close>.\<close>

theorem preprocess_operator_check_witness:
  "data scene = Attr scene_data \<and> ''>='' \<notin> {''<'', ''>''} \<and>
   preprocess id ''>='' 0 0 scene = Inl (KeyError ''>='', scene)"
proof -
  have h: "data scene = Attr scene_data" by (simp add: scene_def)
  have n: "''>='' \<notin> {''<'', ''>''}" by simp
  from h n preprocess_operator_check [OF h, where astype = id and opr = "''>=''" and b = 0
      and replace = 0]
  show ?thesis by blast
qed

section \<open>Adding bands\<close>

text \<open>
  C5. \<^verbatim>\<open>addindices\<close> completes on a list of \<open>K\<close> index functions exactly when the object is
  loaded, scales and offsets are not empty, and each function in turn returns a band when
  it is called with the array and the band list as they stand after the functions before it,
  earlier additions included. The state it leaves is then the old one with the \<open>K\<close> new
  names after the old names and the \<open>K\<close> new planes after the old planes, both in the order
  of the functions, the band of function number \<open>i\<close> labelled with the old number of names
  plus \<open>i + 1\<close>, and with the first scale and the first offset replicated for all bands. So
  the band list and the band dimension both grow by \<open>K\<close>.
\<close>

theorem addindices_in_order:
  "(addindices fs factor r = Inr r' \<longleftrightarrow>
      (\<exists>bs d s ss off offs P N.
         bands r = Attr (Some bs) \<and> data r = Attr d \<and>
         scales d = s # ss \<and> offsets d = off # offs \<and>
         length P = length fs \<and> length N = length fs \<and>
         (\<forall>i<length fs.
            (fs ! i) (d\<lparr>planes := planes d @ take i P\<rparr>) (bs @ take i N) factor =
              Inr (snd (P ! i), N ! i) \<and>
            fst (P ! i) = int (length bs + i + 1)) \<and>
         r' = r\<lparr>bands := Attr (Some (bs @ N)),
                data := Attr (d\<lparr>planes := planes d @ P,
                                scales := replicate (length bs + length fs) s,
                                offsets := replicate (length bs + length fs) off\<rparr>)\<rparr>)) \<and>
   (addindices fs factor r = Inr r' \<longrightarrow>
      (\<exists>bs d bs' d'.
         bands r = Attr (Some bs) \<and> data r = Attr d \<and>
         bands r' = Attr (Some bs') \<and> data r' = Attr d' \<and>
         length bs' = length bs + length fs \<and>
         length (planes d') = length (planes d) + length fs))"
proof (intro conjI iffI impI)
  assume "addindices fs factor r = Inr r'"
  then show "\<exists>bs d s ss off offs P N.
         bands r = Attr (Some bs) \<and> data r = Attr d \<and>
         scales d = s # ss \<and> offsets d = off # offs \<and>
         length P = length fs \<and> length N = length fs \<and>
         (\<forall>i<length fs.
            (fs ! i) (d\<lparr>planes := planes d @ take i P\<rparr>) (bs @ take i N) factor =
              Inr (snd (P ! i), N ! i) \<and>
            fst (P ! i) = int (length bs + i + 1)) \<and>
         r' = r\<lparr>bands := Attr (Some (bs @ N)),
                data := Attr (d\<lparr>planes := planes d @ P,
                                scales := replicate (length bs + length fs) s,
                                offsets := replicate (length bs + length fs) off\<rparr>)\<rparr>"
    by (rule addindices_state)
next
  assume "\<exists>bs d s ss off offs P N.
         bands r = Attr (Some bs) \<and> data r = Attr d \<and>
         scales d = s # ss \<and> offsets d = off # offs \<and>
         length P = length fs \<and> length N = length fs \<and>
         (\<forall>i<length fs.
            (fs ! i) (d\<lparr>planes := planes d @ take i P\<rparr>) (bs @ take i N) factor =
              Inr (snd (P ! i), N ! i) \<and>
            fst (P ! i) = int (length bs + i + 1)) \<and>
         r' = r\<lparr>bands := Attr (Some (bs @ N)),
                data := Attr (d\<lparr>planes := planes d @ P,
                                scales := replicate (length bs + length fs) s,
                                offsets := replicate (length bs + length fs) off\<rparr>)\<rparr>"
  then obtain bs d s ss off offs P N where
    h: "bands r = Attr (Some bs)" "data r = Attr d" "scales d = s # ss" "offsets d = off # offs"
      "length P = length fs" "length N = length fs"
      "\<forall>i<length fs.
         (fs ! i) (d\<lparr>planes := planes d @ take i P\<rparr>) (bs @ take i N) factor =
           Inr (snd (P ! i), N ! i) \<and>
         fst (P ! i) = int (length bs + i + 1)"
    and r': "r' = r\<lparr>bands := Attr (Some (bs @ N)),
                data := Attr (d\<lparr>planes := planes d @ P,
                                scales := replicate (length bs + length fs) s,
                                offsets := replicate (length bs + length fs) off\<rparr>)\<rparr>"
    by (elim exE conjE)
  from addindices_run [OF h] r' show "addindices fs factor r = Inr r'" by simp
next
  assume "addindices fs factor r = Inr r'"
  from addindices_trace [OF this] obtain bs d d' P N where
    t: "bands r = Attr (Some bs) \<and> data r = Attr d \<and>
        bands r' = Attr (Some (bs @ N)) \<and> data r' = Attr d' \<and> planes d' = planes d @ P \<and>
        length N = length fs \<and> length P = length fs \<and>
        (\<forall>i<length fs.
           (fs ! i) (d\<lparr>planes := planes d @ take i P\<rparr>) (bs @ take i N) factor =
             Inr (snd (P ! i), N ! i) \<and>
           fst (P ! i) = int (length bs + i + 1))"
    by (elim exE) (rule that)
  show "\<exists>bs d bs' d'.
         bands r = Attr (Some bs) \<and> data r = Attr d \<and>
         bands r' = Attr (Some bs') \<and> data r' = Attr d' \<and>
         length bs' = length bs + length fs \<and>
         length (planes d') = length (planes d) + length fs"
  proof (intro exI conjI)
    show "bands r = Attr (Some bs)" using t by simp
    show "data r = Attr d" using t by simp
    show "bands r' = Attr (Some (bs @ N))" using t by simp
    show "data r' = Attr d'" using t by simp
    show "length (bs @ N) = length bs + length fs" using t by simp
    show "length (planes d') = length (planes d) + length fs" using t by simp
  qed
qed

text \<open>
  The theorem on the scene with two index functions, of which the second reads the band
  the first one adds (on the original band list it would fail): each returns a band in its
  turn, so the call completes and leaves five names over five planes.
\<close>

theorem addindices_in_order_witness:
  "(\<exists>bs d s ss off offs P N.
      bands scene = Attr (Some bs) \<and> data scene = Attr d \<and>
      scales d = s # ss \<and> offsets d = off # offs \<and>
      length P = length [copy_band ''Red'' ''RedCopy'', copy_band ''RedCopy'' ''Again''] \<and>
      length N = length [copy_band ''Red'' ''RedCopy'', copy_band ''RedCopy'' ''Again''] \<and>
      (\<forall>i<length [copy_band ''Red'' ''RedCopy'', copy_band ''RedCopy'' ''Again''].
         ([copy_band ''Red'' ''RedCopy'', copy_band ''RedCopy'' ''Again''] ! i)
            (d\<lparr>planes := planes d @ take i P\<rparr>) (bs @ take i N) 10000 =
           Inr (snd (P ! i), N ! i) \<and>
         fst (P ! i) = int (length bs + i + 1)) \<and>
      scene_with_copies =
        scene\<lparr>bands := Attr (Some (bs @ N)),
              data := Attr (d\<lparr>planes := planes d @ P,
                scales := replicate
                  (length bs + length [copy_band ''Red'' ''RedCopy'', copy_band ''RedCopy'' ''Again'']) s,
                offsets := replicate
                  (length bs + length [copy_band ''Red'' ''RedCopy'', copy_band ''RedCopy'' ''Again''])
                  off\<rparr>)\<rparr>) \<and>
   addindices [copy_band ''Red'' ''RedCopy'', copy_band ''RedCopy'' ''Again''] 10000 scene =
     Inr scene_with_copies \<and>
   copy_band ''RedCopy'' ''Again'' scene_data scene_names 10000 = Inl ValueError"
proof -
  let ?fs = "[copy_band ''Red'' ''RedCopy'', copy_band ''RedCopy'' ''Again'']"
  let ?red = "\<lparr>shape = (1, 3), flat = [1, 2, 9 :: int]\<rparr>"
  let ?P = "[(4 :: int, ?red), (5, ?red)]" and ?N = "[''RedCopy'', ''Again'']"
  have calls: "\<forall>i<length ?fs.
         (?fs ! i) (scene_data\<lparr>planes := planes scene_data @ take i ?P\<rparr>)
            (scene_names @ take i ?N) 10000 = Inr (snd (?P ! i), ?N ! i) \<and>
         fst (?P ! i) = int (length scene_names + i + 1)"
  proof (intro allI impI)
    fix i assume "i < length ?fs"
    then have "i = 0 \<or> i = 1" by auto
    then show "(?fs ! i) (scene_data\<lparr>planes := planes scene_data @ take i ?P\<rparr>)
            (scene_names @ take i ?N) 10000 = Inr (snd (?P ! i), ?N ! i) \<and>
         fst (?P ! i) = int (length scene_names + i + 1)"
      by (elim disjE) (simp_all add: copy_band_def scene_data_def scene_names_def)
  qed
  have held: "\<exists>bs d s ss off offs P N.
      bands scene = Attr (Some bs) \<and> data scene = Attr d \<and>
      scales d = s # ss \<and> offsets d = off # offs \<and>
      length P = length ?fs \<and> length N = length ?fs \<and>
      (\<forall>i<length ?fs.
         (?fs ! i) (d\<lparr>planes := planes d @ take i P\<rparr>) (bs @ take i N) 10000 =
           Inr (snd (P ! i), N ! i) \<and>
         fst (P ! i) = int (length bs + i + 1)) \<and>
      scene_with_copies =
        scene\<lparr>bands := Attr (Some (bs @ N)),
              data := Attr (d\<lparr>planes := planes d @ P,
                scales := replicate (length bs + length ?fs) s,
                offsets := replicate (length bs + length ?fs) off\<rparr>)\<rparr>"
  proof (intro exI conjI)
    show "bands scene = Attr (Some scene_names)" by (simp add: scene_def)
    show "data scene = Attr scene_data" by (simp add: scene_def)
    show "scales scene_data = 1 # [1, 1]" by (simp add: scene_data_def)
    show "offsets scene_data = 0 # [0, 0]" by (simp add: scene_data_def)
    show "length ?P = length ?fs" by simp
    show "length ?N = length ?fs" by simp
    show "\<forall>i<length ?fs.
         (?fs ! i) (scene_data\<lparr>planes := planes scene_data @ take i ?P\<rparr>)
            (scene_names @ take i ?N) 10000 = Inr (snd (?P ! i), ?N ! i) \<and>
         fst (?P ! i) = int (length scene_names + i + 1)"
      by (rule calls)
    show "scene_with_copies =
        scene\<lparr>bands := Attr (Some (scene_names @ ?N)),
              data := Attr (scene_data\<lparr>planes := planes scene_data @ ?P,
                scales := replicate (length scene_names + length ?fs) 1,
                offsets := replicate (length scene_names + length ?fs) 0\<rparr>)\<rparr>"
      by (simp add: scene_with_copies_def scene_def scene_data_def scene_names_def
          numeral_eq_Suc)
  qed
  have run: "addindices ?fs 10000 scene = Inr scene_with_copies"
    by (rule iffD2 [OF conjunct1 [OF addindices_in_order] held])
  have f: "copy_band ''RedCopy'' ''Again'' scene_data scene_names 10000 = Inl ValueError"
    by (simp add: copy_band_def scene_names_def)
  from held run f show ?thesis by (intro conjI) assumption+
qed

section \<open>Dropping bands\<close>

text \<open>
  C3. The claim: in every reachable state, also after earlier calls of \<^verbatim>\<open>dropindices\<close>,
  dropping present names removes exactly the planes of those names. The method takes the
  position of a name in the band list, plus one, as the label of its plane. That is the
  label only while the labels are \<open>1, 2, ..., n\<close>; a drop leaves the remaining labels as
  they were. On the scene without \<^verbatim>\<open>Blue\<close> (names \<^verbatim>\<open>Green\<close>, \<^verbatim>\<open>Red\<close>, labels 2 and 3),
  dropping \<^verbatim>\<open>Red\<close> removes the plane of \<^verbatim>\<open>Green\<close> and keeps the name \<^verbatim>\<open>Green\<close> over the
  pixels of \<^verbatim>\<open>Red\<close>, and dropping \<^verbatim>\<open>Green\<close> raises \<open>KeyError\<close> though the name is present.
  On a state with distinct names and the labels \<open>1, 2, ..., n\<close>, as a load leaves it, the
  method does remove exactly the named planes (lemma \<open>dropindices_fresh_labels\<close>).
\<close>

theorem dropindices_after_drop:
  "dropindices [''Blue''] scene = Inr scene_without_blue \<and>
   dropindices [''Red''] scene_without_blue =
     Inr \<lparr>data = Attr (scene_data\<lparr>planes := [(3, \<lparr>shape = (1, 3), flat = [1, 2, 9]\<rparr>)]\<rparr>),
          bands = Attr (Some [''Green'']),
          nodataval = Attr [Finite (-9999), Finite (-9999), Finite (-9999)]\<rparr> \<and>
   dropindices [''Green''] scene_without_blue =
     Inl (KeyError ''not found in axis'', scene_without_blue)"
  by (simp add: dropindices_def scene_def scene_names_def get_bands_def get_data_def
      drop_labels_def scene_data_def scene_without_blue_def)

text \<open>
  C9, as claimed: the error raised for an absent name lists that name. On the scene, dropping
  \<^verbatim>\<open>NIR1\<close> raises the assertion error with its fixed text, in which \<^verbatim>\<open>NIR1\<close> does not occur.
\<close>

theorem dropindices_message_counterexample:
  "dropindices [''NIR1''] scene = Inl (AssertionError ''Specified band not in raster.'', scene) \<and>
   \<not> lists_name ''NIR1'' ''Specified band not in raster.''"
  by (simp add: dropindices_def scene_def scene_names_def get_bands_def)

text \<open>
  C9, amended: when the band list is set and at least one of the given names is not in it,
  \<^verbatim>\<open>dropindices\<close> raises the assertion error with the fixed text
  \<^verbatim>\<open>Specified band not in raster.\<close> and leaves the object as it was.
\<close>

theorem dropindices_absent_name:
  assumes "bands r = Attr (Some bs)" and "\<exists>n\<in>set names. n \<notin> set bs"
  shows "dropindices names r = Inl (AssertionError ''Specified band not in raster.'', r)"
proof -
  from assms(2) have "\<not> list_all (\<lambda>n. n \<in> set bs) names"
    by (auto simp: list_all_iff)
  with assms(1) show ?thesis
    by (simp add: dropindices_def all_present_list)
qed

text \<open>The theorem on the scene, with one present and one absent name.\<close>

theorem dropindices_absent_name_witness:
  "bands scene = Attr (Some scene_names) \<and>
   (\<exists>n\<in>set [''Blue'', ''NIR1'']. n \<notin> set scene_names) \<and>
   dropindices [''Blue'', ''NIR1''] scene =
     Inl (AssertionError ''Specified band not in raster.'', scene)"
proof -
  have h1: "bands scene = Attr (Some scene_names)" by (simp add: scene_def)
  have h2: "\<exists>n\<in>set [''Blue'', ''NIR1'']. n \<notin> set scene_names" by (simp add: scene_names_def)
  show ?thesis
    by (rule conjI, rule h1, rule conjI, rule h2, rule dropindices_absent_name [OF h1 h2])
qed

section \<open>The invariant\<close>

lemma open_rasterio_Inr:
  "open_rasterio fs f = Inr d \<longleftrightarrow>
     (\<exists>rf. fs f = Some (RasterFile rf) \<and>
        d = \<lparr>planes = zip (map int [1..<Suc (length (rf_bands rf))]) (rf_bands rf),
             nodatavals = rf_nodatavals rf, scales = rf_scales rf, offsets = rf_offsets rf\<rparr>)"
  by (auto simp: open_rasterio_def split: option.splits entry.splits)

lemma open_rasterio_length:
  assumes "open_rasterio fs f = Inr d"
  shows "\<exists>rf. fs f = Some (RasterFile rf) \<and> length (planes d) = length (rf_bands rf)"
proof -
  from assms obtain rf where rf: "fs f = Some (RasterFile rf)"
    and d: "d = \<lparr>planes = zip (map int [1..<Suc (length (rf_bands rf))]) (rf_bands rf),
             nodatavals = rf_nodatavals rf, scales = rf_scales rf, offsets = rf_offsets rf\<rparr>"
    unfolding open_rasterio_Inr by blast
  have "length (planes d) = length (rf_bands rf)"
    unfolding d by (simp del: upt_Suc)
  with rf show ?thesis by blast
qed

lemma open_rasterio_labels:
  assumes "open_rasterio fs f = Inr d"
  shows "map fst (planes d) = map int [1..<Suc (length (planes d))]"
proof -
  from assms obtain rf where rf: "fs f = Some (RasterFile rf)"
    and d: "d = \<lparr>planes = zip (map int [1..<Suc (length (rf_bands rf))]) (rf_bands rf),
             nodatavals = rf_nodatavals rf, scales = rf_scales rf, offsets = rf_offsets rf\<rparr>"
    unfolding open_rasterio_Inr by blast
  have "length (map int [1..<Suc (length (rf_bands rf))]) = length (rf_bands rf)"
    by (simp del: upt_Suc)
  then show ?thesis unfolding d by (simp del: upt_Suc)
qed

lemma loaded_invariant:
  assumes "open_rasterio fsys f = Inr d"
  shows "band_invariant (r\<lparr>data := Attr d, bands := Attr given, nodataval := nv\<rparr>) \<longleftrightarrow>
      (\<exists>ns rf. given = Some ns \<and> fsys f = Some (RasterFile rf) \<and> length ns = length (rf_bands rf))"
proof -
  from open_rasterio_length [OF assms] obtain rf where
    rf: "fsys f = Some (RasterFile rf)" "length (planes d) = length (rf_bands rf)" by blast
  show ?thesis
  proof (cases given)
    case None
    then show ?thesis by (simp add: band_invariant_def)
  next
    case (Some ns)
    with rf show ?thesis by (auto simp: band_invariant_def)
  qed
qed


text \<open>
  C4, as claimed: the number of names equals the number of planes after every operation
  that completes. Loading the three-band scene under a single name completes with one name
  over three planes; and after the same index has been added twice, dropping its name
  removes two names and one plane.
\<close>

theorem band_invariant_counterexample:
  "band_invariant scene \<and>
   readraster disk ''scene.tif'' (Some [''Blue'']) scene =
     Inr (scene\<lparr>bands := Attr (Some [''Blue''])\<rparr>) \<and>
   \<not> band_invariant (scene\<lparr>bands := Attr (Some [''Blue''])\<rparr>) \<and>
   addindices [copy_band ''Red'' ''RedCopy'', copy_band ''Red'' ''RedCopy''] 10000 scene =
     Inr scene_same_index_twice \<and>
   band_invariant scene_same_index_twice \<and>
   \<not> isl (dropindices [''RedCopy''] scene_same_index_twice) \<and>
   \<not> band_invariant (projr (dropindices [''RedCopy''] scene_same_index_twice))"
proof (intro conjI)
  show "band_invariant scene"
    by (simp add: band_invariant_def scene_def scene_data_def scene_names_def)
  show "readraster disk ''scene.tif'' (Some [''Blue'']) scene =
     Inr (scene\<lparr>bands := Attr (Some [''Blue''])\<rparr>)"
    by (simp add: readraster_def open_rasterio_def disk_def scene_file_def scene_def
        scene_data_def upt_rec)
  show "\<not> band_invariant (scene\<lparr>bands := Attr (Some [''Blue''])\<rparr>)"
    by (simp add: band_invariant_def scene_def scene_data_def)
  show "addindices [copy_band ''Red'' ''RedCopy'', copy_band ''Red'' ''RedCopy''] 10000 scene =
     Inr scene_same_index_twice"
    by (simp add: addindices_def scene_def scene_names_def scene_data_def get_bands_def
        get_data_def copy_band_def concat_band_def numeral_eq_Suc scene_same_index_twice_def)
  show "band_invariant scene_same_index_twice"
    by (simp add: band_invariant_def scene_same_index_twice_def)
  have run: "dropindices [''RedCopy''] scene_same_index_twice =
     Inr \<lparr>data = Attr \<lparr>planes = [(1, \<lparr>shape = (1, 3), flat = [-5, 0, 7]\<rparr>),
                (2, \<lparr>shape = (1, 3), flat = [12000, 3, 4]\<rparr>),
                (3, \<lparr>shape = (1, 3), flat = [1, 2, 9]\<rparr>),
                (5, \<lparr>shape = (1, 3), flat = [1, 2, 9]\<rparr>)],
             nodatavals = [Finite (-9999), Finite (-9999), Finite (-9999)],
             scales = [1, 1, 1, 1, 1],
             offsets = [0, 0, 0, 0, 0]\<rparr>,
          bands = Attr (Some [''Blue'', ''Green'', ''Red'']),
          nodataval = Attr [Finite (-9999), Finite (-9999), Finite (-9999)]\<rparr>"
    by (simp add: dropindices_def scene_same_index_twice_def get_bands_def get_data_def
        drop_labels_def)
  show "\<not> isl (dropindices [''RedCopy''] scene_same_index_twice)"
    by (simp add: run)
  show "\<not> band_invariant (projr (dropindices [''RedCopy''] scene_same_index_twice))"
    by (simp add: run band_invariant_def)
qed

text \<open>
  C4, amended. The invariant is preserved by \<^verbatim>\<open>preprocess\<close> and by \<^verbatim>\<open>addindices\<close> whenever
  they complete; it is preserved by \<^verbatim>\<open>dropindices\<close> when it completes on a state whose band
  names are pairwise distinct and whose band labels are pairwise distinct; and after
  \<^verbatim>\<open>readraster\<close>, or after construction with a path, it holds exactly when a band list
  was given that has as many names as the file has bands.
\<close>

theorem band_invariant_preserved:
  "(band_invariant r \<and> preprocess astype opr b replace r = Inr r1 \<longrightarrow> band_invariant r1) \<and>
   (band_invariant r \<and> addindices fs factor r = Inr r2 \<longrightarrow> band_invariant r2) \<and>
   (band_invariant r \<and> bands r = Attr (Some bs) \<and> data r = Attr d \<and> distinct bs \<and>
      distinct (map fst (planes d)) \<and> dropindices names r = Inr r3 \<longrightarrow> band_invariant r3) \<and>
   (readraster fsys f given r0 = Inr r4 \<longrightarrow>
      (band_invariant r4 \<longleftrightarrow>
        (\<exists>ns rf. given = Some ns \<and> fsys f = Some (RasterFile rf) \<and> length ns = length (rf_bands rf)))) \<and>
   (init fsys (Some f) given = Inr r5 \<longrightarrow>
      (band_invariant r5 \<longleftrightarrow>
        (\<exists>ns rf. given = Some ns \<and> fsys f = Some (RasterFile rf) \<and> length ns = length (rf_bands rf))))"
proof (intro conjI impI)
  assume "band_invariant r \<and> preprocess astype opr b replace r = Inr r1"
  then show "band_invariant r1" by (elim conjE) (rule preprocess_invariant)
next
  assume "band_invariant r \<and> addindices fs factor r = Inr r2"
  then show "band_invariant r2" using addindices_invariant by blast
next
  assume "band_invariant r \<and> bands r = Attr (Some bs) \<and> data r = Attr d \<and> distinct bs \<and>
      distinct (map fst (planes d)) \<and> dropindices names r = Inr r3"
  then show "band_invariant r3" using dropindices_invariant [of r bs d names r3] by simp
next
  assume "readraster fsys f given r0 = Inr r4"
  then show "band_invariant r4 \<longleftrightarrow>
      (\<exists>ns rf. given = Some ns \<and> fsys f = Some (RasterFile rf) \<and> length ns = length (rf_bands rf))"
    using loaded_invariant [where fsys = fsys and f = f and r = r0 and given = given]
    by (auto simp: readraster_def split: sum.splits)
next
  assume "init fsys (Some f) given = Inr r5"
  then show "band_invariant r5 \<longleftrightarrow>
      (\<exists>ns rf. given = Some ns \<and> fsys f = Some (RasterFile rf) \<and> length ns = length (rf_bands rf))"
    using loaded_invariant [where fsys = fsys and f = f and r = empty_raster and given = given]
    by (auto simp: init_def empty_raster_def split: sum.splits if_splits option.splits)
qed

text \<open>
  The theorem on the scene: thresholding it, adding two indices to it, dropping \<^verbatim>\<open>Blue\<close>
  from it, and loading it in both ways under its three names.
\<close>

theorem band_invariant_preserved_witness:
  "band_invariant scene \<and>
   preprocess id ''>'' 0 0 scene = Inr scene_clipped \<and> band_invariant scene_clipped \<and>
   addindices [copy_band ''Red'' ''RedCopy'', copy_band ''RedCopy'' ''Again''] 10000 scene =
     Inr scene_with_copies \<and> band_invariant scene_with_copies \<and>
   bands scene = Attr (Some scene_names) \<and> data scene = Attr scene_data \<and>
   distinct scene_names \<and> distinct (map fst (planes scene_data)) \<and>
   dropindices [''Blue''] scene = Inr scene_without_blue \<and> band_invariant scene_without_blue \<and>
   readraster disk ''scene.tif'' (Some scene_names) empty_raster = Inr scene \<and>
   init disk (Some ''scene.tif'') (Some scene_names) = Inr scene"
proof -
  have inv: "band_invariant scene"
    by (simp add: band_invariant_def scene_def scene_data_def scene_names_def)
  have pre: "preprocess id ''>'' 0 0 scene = Inr scene_clipped"
    by (simp add: preprocess_def ops_gt scene_def scene_data_def where_da_def where_cells_def
        scene_clipped_def)
  have add: "addindices [copy_band ''Red'' ''RedCopy'', copy_band ''RedCopy'' ''Again''] 10000 scene =
     Inr scene_with_copies"
    by (simp add: copy_band_run scene_with_copies_def)
  have b: "bands scene = Attr (Some scene_names)" and d: "data scene = Attr scene_data"
    by (simp_all add: scene_def)
  have d1: "distinct scene_names" by (simp add: scene_names_def)
  have d2: "distinct (map fst (planes scene_data))" by (simp add: scene_data_def)
  have drop: "dropindices [''Blue''] scene = Inr scene_without_blue"
    by (simp add: dropindices_def scene_def scene_names_def get_bands_def get_data_def
        drop_labels_def scene_data_def scene_without_blue_def)
  have rd: "readraster disk ''scene.tif'' (Some scene_names) empty_raster = Inr scene"
    by (simp add: readraster_def open_rasterio_def disk_def scene_file_def scene_def
        scene_data_def empty_raster_def upt_rec)
  note t = band_invariant_preserved [where r = scene and astype = id and opr = "''>''"
      and b = 0 and replace = 0
      and ?r1.0 = scene_clipped
      and fs = "[copy_band ''Red'' ''RedCopy'', copy_band ''RedCopy'' ''Again'']"
      and factor = 10000 and ?r2.0 = scene_with_copies and bs = scene_names and d = scene_data
      and names = "[''Blue'']" and ?r3.0 = scene_without_blue and fsys = disk
      and f = "''scene.tif''" and given = "Some scene_names" and ?r0.0 = empty_raster
      and ?r4.0 = scene and ?r5.0 = scene]
  from t inv pre have i1: "band_invariant scene_clipped" by blast
  from t inv add have i2: "band_invariant scene_with_copies" by blast
  from t inv b d d1 d2 drop have i3: "band_invariant scene_without_blue" by blast
  from inv pre i1 add i2 b d d1 d2 drop i3 rd scene_loaded show ?thesis
    by (intro conjI) assumption+
qed

section \<open>Writing a prediction\<close>






end
